theory Spec2Isabelle
  imports Main
begin

section \<open>JavaScript values, requests and responses\<close>

text \<open>
  The program is one Express application (\<^verbatim>\<open>src/index.js\<close>): a bearer-token middleware
  and five route handlers. The values it handles are JSON data (request bodies, rows of
  the database, decoded token payloads) and the \<^verbatim>\<open>Error\<close> objects its libraries throw.
  JSON data and thrown errors are two different types here, so that a response body holds
  an error object only where the code puts the caught error itself into it.
\<close>

datatype jsval =
    JUndefined
  | JNull
  | JBool bool
  | JNum int
  | JStr string
  | JArr "jsval list"
  | JObj "(string \<times> jsval) list"

type_synonym jsobj = "(string \<times> jsval) list"

text \<open>A thrown \<^verbatim>\<open>Error\<close> object: its \<^verbatim>\<open>name\<close> and its \<^verbatim>\<open>message\<close>.\<close>

datatype jserr = JsError (err_name: string) (err_message: string)

text \<open>JavaScript's \<^verbatim>\<open>!v\<close> is \<open>\<not> truthy v\<close>. Of a number only being zero matters here.\<close>

fun truthy :: "jsval \<Rightarrow> bool" where
  "truthy JUndefined = False"
| "truthy JNull = False"
| "truthy (JBool b) = b"
| "truthy (JNum n) = (n \<noteq> 0)"
| "truthy (JStr s) = (s \<noteq> [])"
| "truthy (JArr xs) = True"
| "truthy (JObj kvs) = True"

text \<open>Reading a property of an object: a missing key reads as \<^verbatim>\<open>undefined\<close>.\<close>

definition member :: "jsobj \<Rightarrow> string \<Rightarrow> jsval" where
  "member obj k = (case map_of obj k of None \<Rightarrow> JUndefined | Some v \<Rightarrow> v)"

text \<open>
  What \<^verbatim>\<open>res.json\<close> is given for one key of the body: JSON data, or a caught error
  object passed on as it is.
\<close>

datatype resp_val = Data jsval | Thrown jserr

record response =
  status :: nat
  json :: "(string \<times> resp_val) list"

text \<open>
  The request: Node gives the headers under lower-case names, each a string;
  \<^verbatim>\<open>express.json()\<close> gives the body as an object; the route parameters are strings.
  \<^verbatim>\<open>userId\<close> is the property the middleware adds (\<^verbatim>\<open>undefined\<close> before).
\<close>

record request =
  headers :: "(string \<times> string) list"
  body :: jsobj
  params :: "(string \<times> string) list"
  userId :: jsval

definition respond :: "nat \<Rightarrow> (string \<times> resp_val) list \<Rightarrow> response" where
  "respond code obj = \<lparr>status = code, json = obj\<rparr>"

definition message :: "string \<Rightarrow> (string \<times> resp_val) list" where
  "message m = [(''message'', Data (JStr m))]"

definition exposes_error :: "response \<Rightarrow> bool" where
  "exposes_error r = (\<exists>kv \<in> set (json r). case snd kv of Thrown e \<Rightarrow> True | Data v \<Rightarrow> False)"

subsection \<open>String operations of the middleware\<close>

text \<open>\<^verbatim>\<open>s.startsWith(p)\<close>.\<close>

definition startsWith :: "string \<Rightarrow> string \<Rightarrow> bool" where
  "startsWith s p = (take (length p) s = p)"

text \<open>
  \<^verbatim>\<open>s.split(c)\<close> for a one-character separator: the pieces between the separators, at
  least one piece, empty pieces kept.
\<close>

fun split :: "char \<Rightarrow> string \<Rightarrow> string list" where
  "split c [] = [[]]"
| "split c (x # xs) =
     (if x = c then [] # split c xs
      else (case split c xs of
              [] \<Rightarrow> [[x]]
            | piece # pieces \<Rightarrow> (x # piece) # pieces))"

text \<open>\<^verbatim>\<open>xs[i]\<close> on an array: \<^verbatim>\<open>undefined\<close> (here \<open>None\<close>) out of range.\<close>

definition at_index :: "'a list \<Rightarrow> nat \<Rightarrow> 'a option" where
  "at_index xs i = (if i < length xs then Some (xs ! i) else None)"

text \<open>
  The text between the first and the second space of a header (up to its end when there
  is no second space), written without \<open>split\<close>.
\<close>

definition between_first_and_second_space :: "string \<Rightarrow> string" where
  "between_first_and_second_space h =
     takeWhile (\<lambda>c. c \<noteq> CHR '' '') (drop 1 (dropWhile (\<lambda>c. c \<noteq> CHR '' '') h))"

subsection \<open>Message texts\<close>

text \<open>The accented letters of the messages, as their UTF-8 bytes.\<close>

definition a_tilde :: string where "a_tilde = [CHR 0xC3, CHR 0xA3]"
definition a_acute :: string where "a_acute = [CHR 0xC3, CHR 0xA1]"
definition c_cedilla :: string where "c_cedilla = [CHR 0xC3, CHR 0xA7]"
definition e_acute :: string where "e_acute = [CHR 0xC3, CHR 0xA9]"
definition o_acute :: string where "o_acute = [CHR 0xC3, CHR 0xB3]"

definition msg_token_missing :: string where
  "msg_token_missing =
     ''Token de autentica'' @ c_cedilla @ a_tilde @ ''o n'' @ a_tilde @ ''o fornecido.''"

definition msg_token_scheme :: string where
  "msg_token_scheme = ''Token malformado. Formato esperado: Bearer <token>''"

definition msg_token_malformed :: string where
  "msg_token_malformed = ''Token malformado.''"

definition msg_token_expired :: string where
  "msg_token_expired = ''Token expirado.''"

definition msg_fields_required :: string where
  "msg_fields_required =
     ''Todos os campos s'' @ a_tilde @ ''o obrigat'' @ o_acute @ ''rios.''"

definition msg_registered :: string where
  "msg_registered = ''Usu'' @ a_acute @ ''rio registrado com sucesso''"

definition msg_register_failed :: string where
  "msg_register_failed = ''Erro ao registrar usu'' @ a_acute @ ''rio.''"

definition msg_user_not_found :: string where
  "msg_user_not_found = ''Usu'' @ a_acute @ ''rio n'' @ a_tilde @ ''o encontrado.''"

definition msg_wrong_password :: string where
  "msg_wrong_password = ''Senha incorreta.''"

definition msg_logged_in :: string where
  "msg_logged_in = ''Login bem-sucedido''"

definition msg_login_failed :: string where
  "msg_login_failed = ''Erro ao fazer login.''"

definition msg_favorite_required :: string where
  "msg_favorite_required =
     ''O nome do pokemon favorito e ID '' @ e_acute @ '' obrigat'' @ o_acute @ ''rio.''"

definition msg_favorite_exists :: string where
  "msg_favorite_exists = ''Este item j'' @ a_acute @ '' foi favoritado.''"

definition msg_favorite_added :: string where
  "msg_favorite_added = ''Favorito adicionado com sucesso.''"

definition msg_favorite_add_failed :: string where
  "msg_favorite_add_failed = ''Erro ao adicionar favorito.''"

definition msg_favorites_list_failed :: string where
  "msg_favorites_list_failed = ''Erro ao listar favoritos.''"

definition msg_favorite_not_found :: string where
  "msg_favorite_not_found = ''Favorito n'' @ a_tilde @ ''o encontrado.''"

definition msg_favorite_removed :: string where
  "msg_favorite_removed = ''Favorito removido com sucesso.''"

definition msg_favorite_remove_failed :: string where
  "msg_favorite_remove_failed = ''Erro ao remover favorito.''"

section \<open>The libraries and the database, as parameters\<close>

text \<open>
  The handlers call \<^verbatim>\<open>bcryptjs\<close>, \<^verbatim>\<open>jsonwebtoken\<close> and the \<^verbatim>\<open>pg\<close> connection pool.
  None of them is code of this program, so each call is a parameter: a function that
  returns the value or the thrown error (\<open>Inl\<close>), and the state it leaves. The state has
  two parts that do not touch each other: the database (\<open>'db\<close>, only \<^verbatim>\<open>pool.query\<close> reads
  and writes it) and the state of the Node process (\<open>'x\<close>: the clock and the random
  source that hashing, signing and verifying use).

  \<^verbatim>\<open>jwt.sign\<close> is called with a payload and the secret only; its third argument, the
  options, is the empty object here. \<open>jwt_decode\<close> is the library's \<^verbatim>\<open>jwt.decode\<close>: the
  claims a token carries, read without checking its signature. The program never calls
  it; the statements about what a token embeds use it. \<open>JWT_SECRET\<close> is
  \<^verbatim>\<open>process.env.JWT_SECRET\<close>.
\<close>

record ('db, 'x) env =
  bcrypt_hash :: "jsval \<Rightarrow> nat \<Rightarrow> 'x \<Rightarrow> (jserr + string) \<times> 'x"
  bcrypt_compare :: "jsval \<Rightarrow> jsval \<Rightarrow> 'x \<Rightarrow> (jserr + bool) \<times> 'x"
  jwt_sign :: "jsobj \<Rightarrow> jsval \<Rightarrow> jsobj \<Rightarrow> 'x \<Rightarrow> (jserr + string) \<times> 'x"
  jwt_verify :: "string \<Rightarrow> jsval \<Rightarrow> 'x \<Rightarrow> (jserr + jsobj) \<times> 'x"
  jwt_decode :: "string \<Rightarrow> jsobj option"
  pool_query :: "string \<Rightarrow> jsval list \<Rightarrow> 'db \<Rightarrow> (jserr + jsobj list) \<times> 'db"
  JWT_SECRET :: jsval

record ('db, 'x) world =
  db :: 'db
  proc :: 'x

section \<open>The authentication middleware\<close>

text \<open>
  \<^verbatim>\<open>authMiddleware(req, res, next)\<close>: \<open>Inl\<close> is the response it sends, \<open>Inr\<close> is the
  request it hands to \<^verbatim>\<open>next()\<close>, with \<^verbatim>\<open>req.userId\<close> set.
\<close>

definition authMiddleware ::
  "('db, 'x) env \<Rightarrow> request \<Rightarrow> 'x \<Rightarrow> (response + request) \<times> 'x" where
  "authMiddleware E req x =
     (case map_of (headers req) ''authorization'' of
        None \<Rightarrow> (Inl (respond 403 (message msg_token_missing)), x)
      | Some token \<Rightarrow>
          if token = [] then (Inl (respond 403 (message msg_token_missing)), x)
          else if \<not> startsWith token ''Bearer '' then
            (Inl (respond 400 (message msg_token_scheme)), x)
          else
            (case at_index (split CHR '' '' token) 1 of
               None \<Rightarrow> (Inl (respond 400 (message msg_token_malformed)), x)
             | Some tokenStr \<Rightarrow>
                 if tokenStr = [] then (Inl (respond 400 (message msg_token_malformed)), x)
                 else
                   (case jwt_verify E tokenStr (JWT_SECRET E) x of
                      (Inr decoded, x') \<Rightarrow> (Inr (req\<lparr>userId := member decoded ''userId''\<rparr>), x')
                    | (Inl error, x') \<Rightarrow>
                        if err_name error = ''TokenExpiredError'' then
                          (Inl (respond 401 (message msg_token_expired)), x')
                        else (Inl (respond 401 [(''message'', Thrown error)]), x'))))"

section \<open>The route handlers\<close>

text \<open>
  Each handler takes the request and the state and returns the response it sends and the
  state it leaves. A rejected \<^verbatim>\<open>await\<close> and a throw inside \<^verbatim>\<open>try\<close> both reach the
  handler's \<^verbatim>\<open>catch\<close>, which logs the error and answers 500.
\<close>

subsection \<open>The statements sent to the database\<close>

definition sql_insert_user :: string where
  "sql_insert_user =
     ''INSERT INTO users (name, email, password) VALUES ($1, $2, $3) RETURNING *''"

definition sql_select_user :: string where
  "sql_select_user = ''SELECT * FROM users WHERE email = $1''"

definition sql_select_favorite :: string where
  "sql_select_favorite = ''SELECT * FROM favorites WHERE user_id = $1 AND name = $2''"

definition sql_insert_favorite :: string where
  "sql_insert_favorite =
     ''INSERT INTO favorites (user_id, name, poke_id) VALUES ($1, $2) RETURNING *''"

definition sql_list_favorites :: string where
  "sql_list_favorites = ''SELECT * FROM favorites WHERE user_id = $1''"

definition sql_delete_favorite :: string where
  "sql_delete_favorite =
     ''DELETE FROM favorites WHERE poke_id = $1 AND user_id = $2 RETURNING *''"

subsection \<open>POST /api/auth/register\<close>

text \<open>
  \<^verbatim>\<open>result.rows[0]\<close> is \<^verbatim>\<open>undefined\<close> when no row came back; \<^verbatim>\<open>user.id\<close> then throws a
  TypeError inside \<^verbatim>\<open>try\<close>, which is the 500 of the \<open>None\<close> branch.
\<close>

definition post_auth_register ::
  "('db, 'x) env \<Rightarrow> request \<Rightarrow> ('db, 'x) world \<Rightarrow> response \<times> ('db, 'x) world" where
  "post_auth_register E req w =
     (let name = member (body req) ''name'';
          email = member (body req) ''email'';
          password = member (body req) ''password''
      in
        if \<not> truthy name \<or> \<not> truthy email \<or> \<not> truthy password then
          (respond 400 (message msg_fields_required), w)
        else
          (case bcrypt_hash E password 10 (proc w) of
             (Inl error, x1) \<Rightarrow>
               (respond 500 (message msg_register_failed), \<lparr>db = db w, proc = x1\<rparr>)
           | (Inr hashPassword, x1) \<Rightarrow>
               (case pool_query E sql_insert_user [name, email, JStr hashPassword] (db w) of
                  (Inl error, d1) \<Rightarrow>
                    (respond 500 (message msg_register_failed), \<lparr>db = d1, proc = x1\<rparr>)
                | (Inr rows, d1) \<Rightarrow>
                    (case at_index rows 0 of
                       None \<Rightarrow>
                         (respond 500 (message msg_register_failed), \<lparr>db = d1, proc = x1\<rparr>)
                     | Some user \<Rightarrow>
                         (case jwt_sign E [(''userId'', member user ''id'')] (JWT_SECRET E) [] x1 of
                            (Inl error, x2) \<Rightarrow>
                              (respond 500 (message msg_register_failed),
                               \<lparr>db = d1, proc = x2\<rparr>)
                          | (Inr token, x2) \<Rightarrow>
                              (respond 201
                                 [(''message'', Data (JStr msg_registered)),
                                  (''token'', Data (JStr token)),
                                  (''userId'', Data (member user ''id''))],
                               \<lparr>db = d1, proc = x2\<rparr>))))))"

subsection \<open>POST /api/auth/login\<close>

definition post_auth_login ::
  "('db, 'x) env \<Rightarrow> request \<Rightarrow> ('db, 'x) world \<Rightarrow> response \<times> ('db, 'x) world" where
  "post_auth_login E req w =
     (let email = member (body req) ''email'';
          password = member (body req) ''password''
      in
        if \<not> truthy email \<or> \<not> truthy password then
          (respond 400 (message msg_fields_required), w)
        else
          (case pool_query E sql_select_user [email] (db w) of
             (Inl error, d1) \<Rightarrow>
               (respond 500 (message msg_login_failed), \<lparr>db = d1, proc = proc w\<rparr>)
           | (Inr rows, d1) \<Rightarrow>
               (case at_index rows 0 of
                  None \<Rightarrow>
                    (respond 404 (message msg_user_not_found), \<lparr>db = d1, proc = proc w\<rparr>)
                | Some user \<Rightarrow>
                    (case bcrypt_compare E password (member user ''password'') (proc w) of
                       (Inl error, x1) \<Rightarrow>
                         (respond 500 (message msg_login_failed), \<lparr>db = d1, proc = x1\<rparr>)
                     | (Inr isMatch, x1) \<Rightarrow>
                         if \<not> isMatch then
                           (respond 400 (message msg_wrong_password), \<lparr>db = d1, proc = x1\<rparr>)
                         else
                           (case jwt_sign E [(''userId'', member user ''id'')] (JWT_SECRET E) [] x1 of
                              (Inl error, x2) \<Rightarrow>
                                (respond 500 (message msg_login_failed),
                                 \<lparr>db = d1, proc = x2\<rparr>)
                            | (Inr token, x2) \<Rightarrow>
                                (respond 200
                                   [(''message'', Data (JStr msg_logged_in)),
                                    (''token'', Data (JStr token)),
                                    (''userId'', Data (member user ''id''))],
                                 \<lparr>db = d1, proc = x2\<rparr>))))))"

subsection \<open>POST /api/favorites\<close>

definition post_favorites ::
  "('db, 'x) env \<Rightarrow> request \<Rightarrow> ('db, 'x) world \<Rightarrow> response \<times> ('db, 'x) world" where
  "post_favorites E req w =
     (let name = member (body req) ''name'';
          poke_id = member (body req) ''poke_id''
      in
        if \<not> truthy name \<or> \<not> truthy poke_id then
          (respond 400 (message msg_favorite_required), w)
        else
          (case pool_query E sql_select_favorite [userId req, name] (db w) of
             (Inl error, d1) \<Rightarrow>
               (respond 500 (message msg_favorite_add_failed), \<lparr>db = d1, proc = proc w\<rparr>)
           | (Inr rows, d1) \<Rightarrow>
               if length rows > 0 then
                 (respond 400 (message msg_favorite_exists), \<lparr>db = d1, proc = proc w\<rparr>)
               else
                 (case pool_query E sql_insert_favorite [userId req, name] d1 of
                    (Inl error, d2) \<Rightarrow>
                      (respond 500 (message msg_favorite_add_failed),
                       \<lparr>db = d2, proc = proc w\<rparr>)
                  | (Inr inserted, d2) \<Rightarrow>
                      (respond 201
                         [(''message'', Data (JStr msg_favorite_added)),
                          (''userId'', Data (userId req)),
                          (''favorite'',
                           Data (case at_index inserted 0 of
                                   None \<Rightarrow> JUndefined
                                 | Some row \<Rightarrow> JObj row))],
                       \<lparr>db = d2, proc = proc w\<rparr>))))"

subsection \<open>GET /api/favorites\<close>

definition get_favorites ::
  "('db, 'x) env \<Rightarrow> request \<Rightarrow> ('db, 'x) world \<Rightarrow> response \<times> ('db, 'x) world" where
  "get_favorites E req w =
     (case pool_query E sql_list_favorites [userId req] (db w) of
        (Inl error, d1) \<Rightarrow>
          (respond 500 (message msg_favorites_list_failed), \<lparr>db = d1, proc = proc w\<rparr>)
      | (Inr rows, d1) \<Rightarrow>
          (respond 200
             [(''userId'', Data (userId req)),
              (''favorites'', Data (JArr (map JObj rows)))],
           \<lparr>db = d1, proc = proc w\<rparr>))"

subsection \<open>DELETE /api/favorites/:id\<close>

text \<open>
  Reading a variable looks its name up in the scope; a name bound nowhere throws a
  ReferenceError. At the call of \<^verbatim>\<open>pool.query\<close> in this handler the scope holds the
  handler's two constants \<^verbatim>\<open>poke_id\<close> and \<^verbatim>\<open>userId\<close>, its parameters \<^verbatim>\<open>req\<close> and
  \<^verbatim>\<open>res\<close>, and the bindings of the module. Of the objects and functions among them only
  the name matters here, so each stands as an empty object. The arguments of a call are
  evaluated, left to right, before the call is made.
\<close>

definition read_var :: "(string \<times> jsval) list \<Rightarrow> string \<Rightarrow> jserr + jsval" where
  "read_var scope x =
     (case map_of scope x of
        None \<Rightarrow> Inl (JsError ''ReferenceError'' (x @ '' is not defined''))
      | Some v \<Rightarrow> Inr v)"

definition module_scope :: "(string \<times> jsval) list" where
  "module_scope =
     [(''express'', JObj []), (''Pool'', JObj []), (''bcrypt'', JObj []),
      (''jwt'', JObj []), (''cors'', JObj []), (''app'', JObj []),
      (''port'', JNum 5000), (''pool'', JObj []), (''authMiddleware'', JObj [])]"

definition delete_scope :: "request \<Rightarrow> (string \<times> jsval) list" where
  "delete_scope req =
     [(''poke_id'', (case map_of (params req) ''id'' of
                       None \<Rightarrow> JUndefined
                     | Some s \<Rightarrow> JStr s)),
      (''userId'', userId req),
      (''req'', JObj []), (''res'', JObj [])] @ module_scope"

definition delete_favorites_id ::
  "('db, 'x) env \<Rightarrow> request \<Rightarrow> ('db, 'x) world \<Rightarrow> response \<times> ('db, 'x) world" where
  "delete_favorites_id E req w =
     (case read_var (delete_scope req) ''id'' of
        Inl error \<Rightarrow> (respond 500 (message msg_favorite_remove_failed), w)
      | Inr arg1 \<Rightarrow>
          (case read_var (delete_scope req) ''userId'' of
             Inl error \<Rightarrow> (respond 500 (message msg_favorite_remove_failed), w)
           | Inr arg2 \<Rightarrow>
               (case pool_query E sql_delete_favorite [arg1, arg2] (db w) of
                  (Inl error, d1) \<Rightarrow>
                    (respond 500 (message msg_favorite_remove_failed),
                     \<lparr>db = d1, proc = proc w\<rparr>)
                | (Inr rows, d1) \<Rightarrow>
                    (case at_index rows 0 of
                       None \<Rightarrow>
                         (respond 404 (message msg_favorite_not_found),
                          \<lparr>db = d1, proc = proc w\<rparr>)
                     | Some row \<Rightarrow>
                         (respond 200
                            [(''message'', Data (JStr msg_favorite_removed)),
                             (''userId'', Data (userId req)),
                             (''favorite'', Data (JObj row))],
                          \<lparr>db = d1, proc = proc w\<rparr>)))))"

subsection \<open>Routes behind the middleware\<close>

text \<open>
  \<^verbatim>\<open>app.post(path, authMiddleware, handler)\<close>: the handler runs only when the middleware
  calls \<^verbatim>\<open>next()\<close>, on the request the middleware has marked.
\<close>

definition protected ::
  "('db, 'x) env \<Rightarrow>
   (('db, 'x) env \<Rightarrow> request \<Rightarrow> ('db, 'x) world \<Rightarrow> response \<times> ('db, 'x) world) \<Rightarrow>
   request \<Rightarrow> ('db, 'x) world \<Rightarrow> response \<times> ('db, 'x) world" where
  "protected E handler req w =
     (case authMiddleware E req (proc w) of
        (Inl res, x1) \<Rightarrow> (res, \<lparr>db = db w, proc = x1\<rparr>)
      | (Inr req1, x1) \<Rightarrow> handler E req1 \<lparr>db = db w, proc = x1\<rparr>)"

section \<open>What the libraries and the database promise\<close>

text \<open>
  The claims about tokens and about registering and then logging in hold only of
  libraries and of a database that keep their contracts. Each contract is a predicate on
  the environment, and a hypothesis of the theorems that need it.
\<close>

text \<open>
  The values that come back from JSON as they went in: everything but arrays and objects,
  of which a member that is \<^verbatim>\<open>undefined\<close> is dropped or replaced. A key whose value is
  \<^verbatim>\<open>undefined\<close> is left out of the JSON text and reads as \<^verbatim>\<open>undefined\<close> again.
\<close>

fun scalar :: "jsval \<Rightarrow> bool" where
  "scalar (JArr xs) = False"
| "scalar (JObj kvs) = False"
| "scalar v = True"

definition registered_claims :: "string list" where
  "registered_claims = [''iat'', ''exp'', ''nbf'', ''aud'', ''iss'', ''sub'', ''jti'']"

text \<open>
  Modelled from the spec: \<^verbatim>\<open>jsonwebtoken\<close> is not code of this repository. Section 4.2:
  a token binds the payload it was signed for, and carries an expiry claim only when one
  is asked for (the \<^verbatim>\<open>expiresIn\<close> option, or an \<^verbatim>\<open>exp\<close> key of the payload). The
  payload travels as JSON, so the promise is made for its scalar values.
\<close>

definition jwt_sign_embeds :: "('db, 'x) env \<Rightarrow> bool" where
  "jwt_sign_embeds E =
     (\<forall>payload secret options x t x1.
        jwt_sign E payload secret options x = (Inr t, x1) \<longrightarrow>
        (\<exists>claims. jwt_decode E t = Some claims \<and>
           (\<forall>k. k \<notin> set registered_claims \<and> scalar (member payload k) \<longrightarrow>
                member claims k = member payload k) \<and>
           (member payload ''exp'' = JUndefined \<and> member options ''expiresIn'' = JUndefined
              \<longrightarrow> member claims ''exp'' = JUndefined)))"

text \<open>
  Modelled from the spec: \<^verbatim>\<open>jsonwebtoken\<close> is not code of this repository. Section 4.3,
  step 5: a successful verification returns the claims the token carries.
\<close>

definition jwt_verify_sound :: "('db, 'x) env \<Rightarrow> bool" where
  "jwt_verify_sound E =
     (\<forall>t secret x claims x1.
        jwt_verify E t secret x = (Inr claims, x1) \<longrightarrow> jwt_decode E t = Some claims)"

text \<open>
  Modelled from the spec: \<^verbatim>\<open>jsonwebtoken\<close> is not code of this repository. Section 4.3,
  step 4: the expired-token error is raised only when the expiry claim of the token has
  passed, so only for a token that carries one.
\<close>

definition jwt_expired_only_with_exp :: "('db, 'x) env \<Rightarrow> bool" where
  "jwt_expired_only_with_exp E =
     (\<forall>t secret x error x1.
        jwt_verify E t secret x = (Inl error, x1) \<and> err_name error = ''TokenExpiredError'' \<longrightarrow>
        (\<exists>claims. jwt_decode E t = Some claims \<and> member claims ''exp'' \<noteq> JUndefined))"




text \<open>
  An INSERT names its target columns in a first parenthesised list and gives their values
  in a second one. PostgreSQL rejects the statement when the two lists differ in length
  (``INSERT has more target columns than expressions'', or the converse). The rule is
  taken here for plain statements only, where counting commas counts columns and
  expressions: \<^verbatim>\<open>INSERT INTO\<close>, a table, the column list, \<^verbatim>\<open>VALUES\<close>, the value list, with
  no other parentheses, no quoted text, and \<^verbatim>\<open>$\<close> only in front of a parameter number.
\<close>

definition between_parens :: "string \<Rightarrow> string" where
  "between_parens q =
     takeWhile (\<lambda>c. c \<noteq> CHR '')'') (drop 1 (dropWhile (\<lambda>c. c \<noteq> CHR ''('') q))"

definition after_paren :: "string \<Rightarrow> string" where
  "after_paren q = drop 1 (dropWhile (\<lambda>c. c \<noteq> CHR '')'') q)"

definition target_columns :: "string \<Rightarrow> string list" where
  "target_columns q = split CHR '','' (between_parens q)"

definition value_expressions :: "string \<Rightarrow> string list" where
  "value_expressions q = split CHR '','' (between_parens (after_paren q))"

definition sql_alphabet :: string where
  "sql_alphabet =
     ''abcdefghijklmnopqrstuvwxyzABCDEFGHIJKLMNOPQRSTUVWXYZ0123456789_ ,()$*''"

fun placeholders_only :: "string \<Rightarrow> bool" where
  "placeholders_only [] = True"
| "placeholders_only [c] = (c \<noteq> CHR ''$'')"
| "placeholders_only (c # d # rest) =
     ((c \<noteq> CHR ''$'' \<or> d \<in> set ''0123456789'') \<and> placeholders_only (d # rest))"

definition plain_insert :: "string \<Rightarrow> bool" where
  "plain_insert q =
     (startsWith q ''INSERT INTO '' \<and>
      list_all (\<lambda>c. c \<in> set sql_alphabet) q \<and>
      placeholders_only q \<and>
      length (filter (\<lambda>c. c = CHR ''('') q) = 2 \<and>
      length (filter (\<lambda>c. c = CHR '')'') q) = 2 \<and>
      startsWith (after_paren q) '' VALUES ('')"

definition insert_arity_mismatch :: "string \<Rightarrow> bool" where
  "insert_arity_mismatch q =
     (plain_insert q \<and> length (target_columns q) \<noteq> length (value_expressions q))"

definition pg_rejects_arity_mismatch :: "('db, 'x) env \<Rightarrow> bool" where
  "pg_rejects_arity_mismatch E =
     (\<forall>q args d. insert_arity_mismatch q \<longrightarrow> (\<exists>error d1. pool_query E q args d = (Inl error, d1)))"

text \<open>
  A response issues the token \<open>t\<close> for the user \<open>uid\<close> when its body holds \<open>t\<close> under
  \<^verbatim>\<open>token\<close> and \<open>uid\<close> under \<^verbatim>\<open>userId\<close>.
\<close>

definition issues :: "response \<Rightarrow> string \<Rightarrow> jsval \<Rightarrow> bool" where
  "issues r t uid =
     (map_of (json r) ''token'' = Some (Data (JStr t)) \<and>
      map_of (json r) ''userId'' = Some (Data uid))"

section \<open>A small environment for concrete runs\<close>

text \<open>
  One environment that keeps every contract above, to run the handlers on concrete
  requests. Its database has the two tables as lists of rows and a counter for the next
  user identifier; its process state is a clock that each library call advances. The
  digest of \<open>p\<close> is \<open>p\<close> after a fixed prefix; a token is \<^verbatim>\<open>jwt.\<close> followed by the user
  identifier in unary. A token that starts with \<^verbatim>\<open>old.\<close> instead carries an expiry claim
  that has passed; the environment never signs one.
\<close>

record store =
  users :: "jsobj list"
  favorites :: "jsobj list"
  next_id :: int

definition demo_hash :: "jsval \<Rightarrow> nat \<Rightarrow> nat \<Rightarrow> (jserr + string) \<times> nat" where
  "demo_hash plain rounds x =
     (case plain of
        JStr p \<Rightarrow> (Inr (''$2a$'' @ p), Suc x)
      | _ \<Rightarrow> (Inl (JsError ''Error'' ''Illegal arguments''), Suc x))"

definition demo_compare :: "jsval \<Rightarrow> jsval \<Rightarrow> nat \<Rightarrow> (jserr + bool) \<times> nat" where
  "demo_compare plain digest x =
     (case (plain, digest) of
        (JStr p, JStr h) \<Rightarrow> (Inr (h = ''$2a$'' @ p), Suc x)
      | _ \<Rightarrow> (Inl (JsError ''Error'' ''Illegal arguments''), Suc x))"

definition demo_sign :: "jsobj \<Rightarrow> jsval \<Rightarrow> jsobj \<Rightarrow> nat \<Rightarrow> (jserr + string) \<times> nat" where
  "demo_sign payload secret options x =
     (case (payload, secret, options) of
        ([(k, JNum n)], JStr s, []) \<Rightarrow>
          if k = ''userId'' \<and> 0 \<le> n \<and> s \<noteq> [] then
            (Inr (''jwt.'' @ replicate (nat n) CHR ''i''), Suc x)
          else (Inl (JsError ''Error'' ''cannot sign''), Suc x)
      | _ \<Rightarrow> (Inl (JsError ''Error'' ''cannot sign''), Suc x))"

definition demo_decode :: "string \<Rightarrow> jsobj option" where
  "demo_decode t =
     (if startsWith t ''jwt.'' \<and> drop 4 t = replicate (length t - 4) CHR ''i''
      then Some [(''userId'', JNum (int (length t - 4)))]
      else if startsWith t ''old.'' \<and> drop 4 t = replicate (length t - 4) CHR ''i''
      then Some [(''userId'', JNum (int (length t - 4))), (''exp'', JNum 0)]
      else None)"

definition demo_verify :: "string \<Rightarrow> jsval \<Rightarrow> nat \<Rightarrow> (jserr + jsobj) \<times> nat" where
  "demo_verify t secret x =
     (case demo_decode t of
        None \<Rightarrow> (Inl (JsError ''JsonWebTokenError'' ''jwt malformed''), Suc x)
      | Some claims \<Rightarrow>
          if member claims ''exp'' \<noteq> JUndefined then
            (Inl (JsError ''TokenExpiredError'' ''jwt expired''), Suc x)
          else (Inr claims, Suc x))"

definition demo_query :: "string \<Rightarrow> jsval list \<Rightarrow> store \<Rightarrow> (jserr + jsobj list) \<times> store" where
  "demo_query q args d =
     (if insert_arity_mismatch q then
        (Inl (JsError ''error'' ''INSERT has more target columns than expressions''), d)
      else if q = sql_insert_user then
        (case args of
           [JStr name, JStr email, JStr digest] \<Rightarrow>
             if JStr email \<in> set (map (\<lambda>row. member row ''email'') (users d)) then
               (Inl (JsError ''error'' ''duplicate key value violates unique constraint''), d)
             else
               (let row = [(''id'', JNum (next_id d)), (''name'', JStr name),
                           (''email'', JStr email), (''password'', JStr digest)]
                in (Inr [row], d\<lparr>users := users d @ [row], next_id := next_id d + 1\<rparr>))
         | _ \<Rightarrow> (Inl (JsError ''error'' ''bad parameters''), d))
      else if q = sql_select_user then
        (case args of
           [email] \<Rightarrow> (Inr (filter (\<lambda>row. member row ''email'' = email) (users d)), d)
         | _ \<Rightarrow> (Inl (JsError ''error'' ''bad parameters''), d))
      else if q = sql_select_favorite then
        (case args of
           [uid, name] \<Rightarrow>
             (Inr (filter (\<lambda>row. member row ''user_id'' = uid \<and> member row ''name'' = name)
                     (favorites d)), d)
         | _ \<Rightarrow> (Inl (JsError ''error'' ''bad parameters''), d))
      else if q = sql_list_favorites then
        (case args of
           [uid] \<Rightarrow> (Inr (filter (\<lambda>row. member row ''user_id'' = uid) (favorites d)), d)
         | _ \<Rightarrow> (Inl (JsError ''error'' ''bad parameters''), d))
      else (Inl (JsError ''error'' ''statement not supported''), d))"

definition demo_env :: "(store, nat) env" where
  "demo_env =
     \<lparr>bcrypt_hash = demo_hash, bcrypt_compare = demo_compare,
      jwt_sign = demo_sign, jwt_verify = demo_verify, jwt_decode = demo_decode,
      pool_query = demo_query, JWT_SECRET = JStr ''secret''\<rparr>"

definition empty_store :: store where
  "empty_store = \<lparr>users = [], favorites = [], next_id = 1\<rparr>"

definition demo_world :: "(store, nat) world" where
  "demo_world = \<lparr>db = empty_store, proc = 0\<rparr>"

definition request_with :: "(string \<times> string) list \<Rightarrow> jsobj \<Rightarrow> request" where
  "request_with hs b = \<lparr>headers = hs, body = b, params = [], userId = JUndefined\<rparr>"

text \<open>The store after one registration, of A with password \<^verbatim>\<open>p\<close>.\<close>

definition alice_row :: jsobj where
  "alice_row = [(''id'', JNum 1), (''name'', JStr ''A''), (''email'', JStr ''a@x.com''),
                (''password'', JStr ''$2a$p'')]"

definition alice_store :: store where
  "alice_store = \<lparr>users = [alice_row], favorites = [], next_id = 2\<rparr>"

text \<open>
  Two variants that fail: one whose secret is missing, so that signing fails, and one
  whose database refuses every statement.
\<close>

definition demo_env_no_secret :: "(store, nat) env" where
  "demo_env_no_secret = demo_env\<lparr>JWT_SECRET := JUndefined\<rparr>"

definition demo_env_db_down :: "(store, nat) env" where
  "demo_env_db_down =
     demo_env\<lparr>pool_query := \<lambda>q args d. (Inl (JsError ''Error'' ''connect ECONNREFUSED''), d)\<rparr>"

section \<open>Facts about the middleware\<close>

text \<open>
  \<open>split\<close> always returns a first piece, the text before the first separator; its second
  piece, when the separator occurs, is the text between the first and the second
  occurrence.
\<close>

lemma split_not_Nil: "split c s \<noteq> []"
  by (induction s) (auto split: list.splits)

lemma hd_split: "hd (split c s) = takeWhile (\<lambda>x. x \<noteq> c) s"
  by (induction s) (auto split: list.splits simp: split_not_Nil)

lemma split_second:
  "at_index (split c s) 1 =
     (if c \<in> set s then Some (takeWhile (\<lambda>x. x \<noteq> c) (drop 1 (dropWhile (\<lambda>x. x \<noteq> c) s)))
      else None)"
proof (induction s)
  case Nil
  show ?case by (simp add: at_index_def)
next
  case (Cons a s)
  show ?case
  proof (cases "a = c")
    case True
    have "split c s \<noteq> []" by (rule split_not_Nil)
    then obtain p ps where "split c s = p # ps" by (cases "split c s") auto
    moreover from this have "p = takeWhile (\<lambda>x. x \<noteq> c) s" using hd_split[of c s] by simp
    ultimately show ?thesis using True by (simp add: at_index_def)
  next
    case False
    obtain p ps where sp: "split c s = p # ps" using split_not_Nil[of c s] by (cases "split c s") auto
    with Cons False show ?thesis by (auto simp add: at_index_def split: if_splits)
  qed
qed

lemma startsWith_iff: "startsWith s p \<longleftrightarrow> (\<exists>r. s = p @ r)"
  unfolding startsWith_def by (metis append_eq_conv_conj append_take_drop_id)

lemma bearer_token:
  assumes "startsWith h ''Bearer ''"
  shows "at_index (split CHR '' '' h) (Suc 0) = Some (between_first_and_second_space h)"
proof -
  from assms obtain r where "h = ''Bearer '' @ r" by (auto simp add: startsWith_iff)
  then have "CHR '' '' \<in> set h" by simp
  with split_second[of "CHR '' ''" h] show ?thesis by (simp add: between_first_and_second_space_def)
qed

lemma bearer_token_rest:
  assumes "startsWith h ''Bearer ''"
  shows "between_first_and_second_space h = takeWhile (\<lambda>c. c \<noteq> CHR '' '') (drop 7 h)"
proof -
  from assms obtain r where "h = ''Bearer '' @ r" by (auto simp add: startsWith_iff)
  then show ?thesis by (simp add: between_first_and_second_space_def)
qed


lemma authMiddleware_bearer:
  assumes hdr: "map_of (headers req) ''authorization'' = Some h"
      and pre: "startsWith h ''Bearer ''"
  shows "authMiddleware E req x =
     (if between_first_and_second_space h = [] then (Inl (respond 400 (message msg_token_malformed)), x)
      else (case jwt_verify E (between_first_and_second_space h) (JWT_SECRET E) x of
              (Inr decoded, x1) \<Rightarrow> (Inr (req\<lparr>userId := member decoded ''userId''\<rparr>), x1)
            | (Inl error, x1) \<Rightarrow>
                if err_name error = ''TokenExpiredError'' then
                  (Inl (respond 401 (message msg_token_expired)), x1)
                else (Inl (respond 401 [(''message'', Thrown error)]), x1)))"
proof -
  from pre have "h \<noteq> []" by (auto simp add: startsWith_iff)
  with hdr pre bearer_token[OF pre] show ?thesis
    by (simp add: authMiddleware_def)
qed

lemma authMiddleware_status:
  "authMiddleware E req x = (Inl r, x1) \<Longrightarrow> status r = 403 \<or> status r = 400 \<or> status r = 401"
  by (auto simp add: authMiddleware_def respond_def
           split: option.splits if_splits prod.splits sum.splits)

subsection \<open>Concrete runs of the small environment\<close>

lemma demo_verify_jwt_i: "demo_verify ''jwt.i'' s x = (Inr [(''userId'', JNum 1)], Suc x)"
  by (simp add: demo_verify_def demo_decode_def startsWith_def member_def)

lemma demo_verify_old_i:
  "demo_verify ''old.i'' s x = (Inl (JsError ''TokenExpiredError'' ''jwt expired''), Suc x)"
  by (simp add: demo_verify_def demo_decode_def startsWith_def member_def)

lemma demo_verify_garbage:
  "demo_verify ''garbage'' s x = (Inl (JsError ''JsonWebTokenError'' ''jwt malformed''), Suc x)"
  by (simp add: demo_verify_def demo_decode_def startsWith_def member_def)

lemma demo_env_simps:
  "jwt_verify demo_env = demo_verify" "jwt_sign demo_env = demo_sign"
  "jwt_decode demo_env = demo_decode" "bcrypt_hash demo_env = demo_hash"
  "bcrypt_compare demo_env = demo_compare" "pool_query demo_env = demo_query"
  "JWT_SECRET demo_env = JStr ''secret''"
  by (simp_all add: demo_env_def)

lemma demo_env_no_secret_simps:
  "jwt_sign demo_env_no_secret = demo_sign" "bcrypt_hash demo_env_no_secret = demo_hash"
  "bcrypt_compare demo_env_no_secret = demo_compare" "pool_query demo_env_no_secret = demo_query"
  "JWT_SECRET demo_env_no_secret = JUndefined"
  by (simp_all add: demo_env_no_secret_def demo_env_def)

lemma demo_bearer_accepted:
  "authMiddleware demo_env (request_with [(''authorization'', ''Bearer jwt.i'')] []) 0 =
     (Inr ((request_with [(''authorization'', ''Bearer jwt.i'')] [])\<lparr>userId := JNum 1\<rparr>), 1)"
  by (simp add: authMiddleware_bearer request_with_def startsWith_def
        between_first_and_second_space_def demo_env_simps demo_verify_jwt_i member_def)

subsection \<open>The statements, and the database of the small environment\<close>

lemma plain_insert_favorite: "plain_insert sql_insert_favorite"
  by (simp add: plain_insert_def sql_alphabet_def after_paren_def sql_insert_favorite_def
        startsWith_def)

lemma arity_insert_favorite:
  "target_columns sql_insert_favorite = [''user_id'', '' name'', '' poke_id'']"
  "value_expressions sql_insert_favorite = [''$1'', '' $2'']"
  "insert_arity_mismatch sql_insert_favorite"
  using plain_insert_favorite
  by (simp_all add: insert_arity_mismatch_def target_columns_def value_expressions_def
        between_parens_def after_paren_def sql_insert_favorite_def)

lemma no_mismatch:
  "\<not> insert_arity_mismatch sql_insert_user"
  "\<not> insert_arity_mismatch sql_select_user"
  "\<not> insert_arity_mismatch sql_select_favorite"
  "\<not> insert_arity_mismatch sql_list_favorites"
  by (simp_all add: insert_arity_mismatch_def plain_insert_def target_columns_def
        value_expressions_def between_parens_def after_paren_def sql_insert_user_def
        sql_select_user_def sql_select_favorite_def sql_list_favorites_def startsWith_def)

lemma sql_distinct:
  "sql_select_user \<noteq> sql_insert_user"
  "sql_select_favorite \<noteq> sql_insert_user" "sql_select_favorite \<noteq> sql_select_user"
  "sql_list_favorites \<noteq> sql_insert_user" "sql_list_favorites \<noteq> sql_select_user"
  "sql_list_favorites \<noteq> sql_select_favorite"
  by (simp_all add: sql_insert_user_def sql_select_user_def
        sql_select_favorite_def sql_list_favorites_def)

lemma demo_select_user:
  "demo_query sql_select_user [email] d =
     (Inr (filter (\<lambda>row. member row ''email'' = email) (users d)), d)"
  by (simp add: demo_query_def no_mismatch sql_distinct)

lemma demo_select_favorite:
  "demo_query sql_select_favorite [uid, name] d =
     (Inr (filter (\<lambda>row. member row ''user_id'' = uid \<and> member row ''name'' = name)
             (favorites d)), d)"
  by (simp add: demo_query_def no_mismatch sql_distinct)

lemma demo_insert_user:
  "demo_query sql_insert_user [JStr name, JStr email, JStr digest] d =
     (if JStr email \<in> set (map (\<lambda>row. member row ''email'') (users d)) then
        (Inl (JsError ''error'' ''duplicate key value violates unique constraint''), d)
      else
        (Inr [[(''id'', JNum (next_id d)), (''name'', JStr name),
               (''email'', JStr email), (''password'', JStr digest)]],
         d\<lparr>users := users d @ [[(''id'', JNum (next_id d)), (''name'', JStr name),
               (''email'', JStr email), (''password'', JStr digest)]],
           next_id := next_id d + 1\<rparr>))"
  by (simp add: demo_query_def no_mismatch Let_def)

lemma demo_pg_rejects: "pg_rejects_arity_mismatch demo_env"
  by (simp add: pg_rejects_arity_mismatch_def demo_env_def demo_query_def)

section \<open>The order of the middleware's checks\<close>

text \<open>
  Claim C1, as amended. The middleware decides in this order: no authorization header, or
  one whose value is empty, is answered 403; otherwise a value that does not start with
  \<^verbatim>\<open>Bearer \<close> is answered 400; otherwise an empty token body is answered 400, the token
  body being the text between the first and the second space of the value; otherwise a
  verification that fails with the expired-token error is answered 401 with the fixed
  message; otherwise a verification that fails is answered 401 with the error; and the
  request reaches the next handler exactly when the verification succeeds, with the
  \<^verbatim>\<open>userId\<close> of the decoded payload attached.
\<close>

theorem authMiddleware_precedence:
  "(map_of (headers req) ''authorization'' = None \<or>
    map_of (headers req) ''authorization'' = Some [] \<longrightarrow>
      authMiddleware E req x = (Inl (respond 403 (message msg_token_missing)), x))
   \<and> (\<forall>h. map_of (headers req) ''authorization'' = Some h \<and> h \<noteq> [] \<and>
           \<not> startsWith h ''Bearer '' \<longrightarrow>
      authMiddleware E req x = (Inl (respond 400 (message msg_token_scheme)), x))
   \<and> (\<forall>h. map_of (headers req) ''authorization'' = Some h \<and> startsWith h ''Bearer '' \<and>
           between_first_and_second_space h = [] \<longrightarrow>
      authMiddleware E req x = (Inl (respond 400 (message msg_token_malformed)), x))
   \<and> (\<forall>h. map_of (headers req) ''authorization'' = Some h \<and> startsWith h ''Bearer '' \<and>
           drop 7 h = [] \<longrightarrow>
      authMiddleware E req x = (Inl (respond 400 (message msg_token_malformed)), x))
   \<and> (\<forall>h error x1. map_of (headers req) ''authorization'' = Some h \<and>
           startsWith h ''Bearer '' \<and> between_first_and_second_space h \<noteq> [] \<and>
           jwt_verify E (between_first_and_second_space h) (JWT_SECRET E) x = (Inl error, x1) \<and>
           err_name error = ''TokenExpiredError'' \<longrightarrow>
      authMiddleware E req x = (Inl (respond 401 (message msg_token_expired)), x1))
   \<and> (\<forall>h error x1. map_of (headers req) ''authorization'' = Some h \<and>
           startsWith h ''Bearer '' \<and> between_first_and_second_space h \<noteq> [] \<and>
           jwt_verify E (between_first_and_second_space h) (JWT_SECRET E) x = (Inl error, x1) \<and>
           err_name error \<noteq> ''TokenExpiredError'' \<longrightarrow>
      authMiddleware E req x = (Inl (respond 401 [(''message'', Thrown error)]), x1))
   \<and> (\<forall>req1 x1. authMiddleware E req x = (Inr req1, x1) \<longleftrightarrow>
         (\<exists>h decoded. map_of (headers req) ''authorization'' = Some h \<and>
            startsWith h ''Bearer '' \<and> between_first_and_second_space h \<noteq> [] \<and>
            jwt_verify E (between_first_and_second_space h) (JWT_SECRET E) x = (Inr decoded, x1) \<and>
            req1 = req\<lparr>userId := member decoded ''userId''\<rparr>))"
proof (intro conjI allI impI)
  assume "map_of (headers req) ''authorization'' = None \<or>
          map_of (headers req) ''authorization'' = Some []"
  then show "authMiddleware E req x = (Inl (respond 403 (message msg_token_missing)), x)"
    by (auto simp add: authMiddleware_def)
next
  fix h
  assume "map_of (headers req) ''authorization'' = Some h \<and> h \<noteq> [] \<and>
          \<not> startsWith h ''Bearer ''"
  then show "authMiddleware E req x = (Inl (respond 400 (message msg_token_scheme)), x)"
    by (simp add: authMiddleware_def)
next
  fix h
  assume "map_of (headers req) ''authorization'' = Some h \<and> startsWith h ''Bearer '' \<and>
          between_first_and_second_space h = []"
  then show "authMiddleware E req x = (Inl (respond 400 (message msg_token_malformed)), x)"
    by (simp add: authMiddleware_bearer)
next
  fix h
  assume "map_of (headers req) ''authorization'' = Some h \<and> startsWith h ''Bearer '' \<and>
          drop 7 h = []"
  then show "authMiddleware E req x = (Inl (respond 400 (message msg_token_malformed)), x)"
    by (simp add: authMiddleware_bearer bearer_token_rest)
next
  fix h error x1
  assume "map_of (headers req) ''authorization'' = Some h \<and>
           startsWith h ''Bearer '' \<and> between_first_and_second_space h \<noteq> [] \<and>
           jwt_verify E (between_first_and_second_space h) (JWT_SECRET E) x = (Inl error, x1) \<and>
           err_name error = ''TokenExpiredError''"
  then show "authMiddleware E req x = (Inl (respond 401 (message msg_token_expired)), x1)"
    by (simp add: authMiddleware_bearer)
next
  fix h error x1
  assume "map_of (headers req) ''authorization'' = Some h \<and>
           startsWith h ''Bearer '' \<and> between_first_and_second_space h \<noteq> [] \<and>
           jwt_verify E (between_first_and_second_space h) (JWT_SECRET E) x = (Inl error, x1) \<and>
           err_name error \<noteq> ''TokenExpiredError''"
  then show "authMiddleware E req x = (Inl (respond 401 [(''message'', Thrown error)]), x1)"
    by (simp add: authMiddleware_bearer)
next
  fix req1 x1
  show "authMiddleware E req x = (Inr req1, x1) \<longleftrightarrow>
         (\<exists>h decoded. map_of (headers req) ''authorization'' = Some h \<and>
            startsWith h ''Bearer '' \<and> between_first_and_second_space h \<noteq> [] \<and>
            jwt_verify E (between_first_and_second_space h) (JWT_SECRET E) x = (Inr decoded, x1) \<and>
            req1 = req\<lparr>userId := member decoded ''userId''\<rparr>)"
  proof (cases "map_of (headers req) ''authorization''")
    case None
    then show ?thesis by (simp add: authMiddleware_def)
  next
    case (Some h)
    show ?thesis
    proof (cases "startsWith h ''Bearer ''")
      case False
      with Some show ?thesis by (simp add: authMiddleware_def)
    next
      case True
      with Some show ?thesis
        by (auto simp add: authMiddleware_bearer split: prod.splits sum.splits if_splits)
    qed
  qed
qed

theorem authMiddleware_precedence_witness:
  "authMiddleware demo_env (request_with [] []) 0 =
     (Inl (respond 403 (message msg_token_missing)), 0)
   \<and> authMiddleware demo_env (request_with [(''authorization'', ''Basic abc'')] []) 0 =
     (Inl (respond 400 (message msg_token_scheme)), 0)
   \<and> authMiddleware demo_env (request_with [(''authorization'', ''Bearer '')] []) 0 =
     (Inl (respond 400 (message msg_token_malformed)), 0)
   \<and> authMiddleware demo_env (request_with [(''authorization'', ''Bearer old.i'')] []) 0 =
     (Inl (respond 401 (message msg_token_expired)), 1)
   \<and> authMiddleware demo_env (request_with [(''authorization'', ''Bearer garbage'')] []) 0 =
     (Inl (respond 401
        [(''message'', Thrown (JsError ''JsonWebTokenError'' ''jwt malformed''))]), 1)
   \<and> authMiddleware demo_env (request_with [(''authorization'', ''Bearer jwt.i'')] []) 0 =
     (Inr ((request_with [(''authorization'', ''Bearer jwt.i'')] [])\<lparr>userId := JNum 1\<rparr>), 1)"
proof -
  have c1: "authMiddleware demo_env (request_with [] []) 0 =
     (Inl (respond 403 (message msg_token_missing)), 0)"
    using authMiddleware_precedence[of "request_with [] []" demo_env 0]
    by (simp add: request_with_def)
  have c2: "authMiddleware demo_env (request_with [(''authorization'', ''Basic abc'')] []) 0 =
     (Inl (respond 400 (message msg_token_scheme)), 0)"
    using authMiddleware_precedence
            [of "request_with [(''authorization'', ''Basic abc'')] []" demo_env 0]
    by (simp add: request_with_def startsWith_def)
  have c3: "authMiddleware demo_env (request_with [(''authorization'', ''Bearer '')] []) 0 =
     (Inl (respond 400 (message msg_token_malformed)), 0)"
    using authMiddleware_precedence
            [of "request_with [(''authorization'', ''Bearer '')] []" demo_env 0]
    by (simp add: request_with_def startsWith_def between_first_and_second_space_def)
  have c4: "authMiddleware demo_env (request_with [(''authorization'', ''Bearer old.i'')] []) 0 =
     (Inl (respond 401 (message msg_token_expired)), 1)"
    using authMiddleware_precedence
            [of "request_with [(''authorization'', ''Bearer old.i'')] []" demo_env 0]
    by (simp add: request_with_def startsWith_def between_first_and_second_space_def
          demo_env_simps demo_verify_old_i)
  have c5: "authMiddleware demo_env (request_with [(''authorization'', ''Bearer garbage'')] []) 0 =
     (Inl (respond 401
        [(''message'', Thrown (JsError ''JsonWebTokenError'' ''jwt malformed''))]), 1)"
    using authMiddleware_precedence
            [of "request_with [(''authorization'', ''Bearer garbage'')] []" demo_env 0]
    by (simp add: request_with_def startsWith_def between_first_and_second_space_def
          demo_env_simps demo_verify_garbage)
  have c6: "authMiddleware demo_env (request_with [(''authorization'', ''Bearer jwt.i'')] []) 0 =
     (Inr ((request_with [(''authorization'', ''Bearer jwt.i'')] [])\<lparr>userId := JNum 1\<rparr>), 1)"
    using authMiddleware_precedence
            [of "request_with [(''authorization'', ''Bearer jwt.i'')] []" demo_env 0]
    by (simp add: request_with_def startsWith_def between_first_and_second_space_def
          demo_env_simps demo_verify_jwt_i member_def)
  from c1 c2 c3 c4 c5 c6 show ?thesis by simp
qed

text \<open>
  The claim as it was written gives 400 to every header that is present and does not
  start with \<^verbatim>\<open>Bearer \<close>. A header that is present with an empty value is answered 403:
  the first check of the code is \<^verbatim>\<open>!token\<close>, which the empty string satisfies. And
  the claim lets the verification decide whenever something follows \<^verbatim>\<open>Bearer \<close>. A
  header with a second space right after the prefix is answered 400 without being verified,
  though what follows the prefix is not empty.
\<close>

theorem authMiddleware_precedence_counterexample:
  "map_of (headers (request_with [(''authorization'', [])] [])) ''authorization'' = Some []
   \<and> \<not> startsWith [] ''Bearer ''
   \<and> authMiddleware demo_env (request_with [(''authorization'', [])] []) 0 =
       (Inl (respond 403 (message msg_token_missing)), 0)
   \<and> status (respond 403 (message msg_token_missing)) \<noteq> 400
   \<and> startsWith ''Bearer  jwt.i'' ''Bearer ''
   \<and> drop 7 ''Bearer  jwt.i'' = '' jwt.i''
   \<and> authMiddleware demo_env (request_with [(''authorization'', ''Bearer  jwt.i'')] []) 0 =
       (Inl (respond 400 (message msg_token_malformed)), 0)"
proof -
  have empty: "authMiddleware demo_env (request_with [(''authorization'', [])] []) 0 =
       (Inl (respond 403 (message msg_token_missing)), 0)"
    by (simp add: authMiddleware_def request_with_def)
  have prefix: "startsWith ''Bearer  jwt.i'' ''Bearer ''"
    by (simp add: startsWith_def)
  have "between_first_and_second_space ''Bearer  jwt.i'' = []"
    by (simp add: between_first_and_second_space_def)
  with prefix
  have twice: "authMiddleware demo_env
                 (request_with [(''authorization'', ''Bearer  jwt.i'')] []) 0 =
       (Inl (respond 400 (message msg_token_malformed)), 0)"
    by (simp add: authMiddleware_bearer request_with_def)
  from empty prefix twice show ?thesis
    by (simp add: request_with_def startsWith_def respond_def)
qed

section \<open>Which part of the header is verified\<close>

text \<open>
  Claim C8. For a header that starts with \<^verbatim>\<open>Bearer \<close>, the piece the middleware takes
  (\<^verbatim>\<open>token.split(' ')[1]\<close>) is the text between the first and the second space of the
  header, that is the remainder after the prefix cut at its first space. That piece alone
  decides the answer: empty, the request is answered 400 as a malformed token; otherwise
  it is the string given to \<^verbatim>\<open>jwt.verify\<close>. So of \<^verbatim>\<open>Bearer a b\<close> only \<^verbatim>\<open>a\<close> is verified,
  not the remainder \<^verbatim>\<open>a b\<close>, and a header with two spaces after \<^verbatim>\<open>Bearer\<close> has an empty
  token.
\<close>

theorem bearer_token_is_second_piece:
  assumes "map_of (headers req) ''authorization'' = Some h"
      and "startsWith h ''Bearer ''"
  shows "at_index (split CHR '' '' h) 1 = Some (between_first_and_second_space h)
   \<and> between_first_and_second_space h = takeWhile (\<lambda>c. c \<noteq> CHR '' '') (drop 7 h)
   \<and> authMiddleware E req x =
       (if between_first_and_second_space h = [] then
          (Inl (respond 400 (message msg_token_malformed)), x)
        else
          (case jwt_verify E (between_first_and_second_space h) (JWT_SECRET E) x of
             (Inr decoded, x1) \<Rightarrow> (Inr (req\<lparr>userId := member decoded ''userId''\<rparr>), x1)
           | (Inl error, x1) \<Rightarrow>
               if err_name error = ''TokenExpiredError'' then
                 (Inl (respond 401 (message msg_token_expired)), x1)
               else (Inl (respond 401 [(''message'', Thrown error)]), x1)))
   \<and> between_first_and_second_space ''Bearer a b'' = ''a''
   \<and> drop 7 ''Bearer a b'' = ''a b''
   \<and> between_first_and_second_space ''Bearer  x'' = []"
proof -
  have "between_first_and_second_space ''Bearer a b'' = ''a''"
    and "between_first_and_second_space ''Bearer  x'' = []"
    by (simp_all add: between_first_and_second_space_def)
  with assms show ?thesis
    by (simp add: bearer_token bearer_token_rest authMiddleware_bearer)
qed

theorem bearer_token_is_second_piece_witness:
  "map_of (headers (request_with [(''authorization'', ''Bearer jwt.i b'')] [])) ''authorization''
     = Some ''Bearer jwt.i b''
   \<and> startsWith ''Bearer jwt.i b'' ''Bearer ''
   \<and> between_first_and_second_space ''Bearer jwt.i b'' = ''jwt.i''
   \<and> demo_decode ''jwt.i b'' = None
   \<and> authMiddleware demo_env (request_with [(''authorization'', ''Bearer jwt.i b'')] []) 0 =
       (Inr ((request_with [(''authorization'', ''Bearer jwt.i b'')] [])\<lparr>userId := JNum 1\<rparr>), 1)
   \<and> authMiddleware demo_env (request_with [(''authorization'', ''Bearer  jwt.i'')] []) 0 =
       (Inl (respond 400 (message msg_token_malformed)), 0)"
proof -
  have h1: "map_of (headers (request_with [(''authorization'', ''Bearer jwt.i b'')] []))
              ''authorization'' = Some ''Bearer jwt.i b''"
    by (simp add: request_with_def)
  have h2: "startsWith ''Bearer jwt.i b'' ''Bearer ''" by (simp add: startsWith_def)
  have h3: "map_of (headers (request_with [(''authorization'', ''Bearer  jwt.i'')] []))
              ''authorization'' = Some ''Bearer  jwt.i''"
    by (simp add: request_with_def)
  have h4: "startsWith ''Bearer  jwt.i'' ''Bearer ''" by (simp add: startsWith_def)
  have b1: "between_first_and_second_space ''Bearer jwt.i b'' = ''jwt.i''"
    by (simp add: between_first_and_second_space_def)
  have b2: "between_first_and_second_space ''Bearer  jwt.i'' = []"
    by (simp add: between_first_and_second_space_def)
  have d: "demo_decode ''jwt.i b'' = None"
    by (simp add: demo_decode_def startsWith_def)
  from bearer_token_is_second_piece[OF h1 h2, of demo_env 0]
       bearer_token_is_second_piece[OF h3 h4, of demo_env 0]
       h1 h2 b1 b2 d
  show ?thesis by (simp add: demo_env_simps demo_verify_jwt_i member_def)
qed

section \<open>Registration with a missing field\<close>

text \<open>
  Claim C5. When the request body lacks any of \<^verbatim>\<open>name\<close>, \<^verbatim>\<open>email\<close> or \<^verbatim>\<open>password\<close>,
  the registration handler answers 400 and leaves the whole state as it was. This holds
  for every environment, so also for one whose database and libraries record each call
  in their state: none of them is called, neither the hash nor the insert.
\<close>

theorem register_missing_field:
  assumes "map_of (body req) ''name'' = None \<or> map_of (body req) ''email'' = None
           \<or> map_of (body req) ''password'' = None"
  shows "post_auth_register E req w = (respond 400 (message msg_fields_required), w)"
  using assms by (auto simp add: post_auth_register_def member_def Let_def)

theorem register_missing_field_witness:
  "map_of (body (request_with [] [(''name'', JStr ''A''), (''email'', JStr ''a@x.com'')]))
     ''password'' = None
   \<and> post_auth_register demo_env
        (request_with [] [(''name'', JStr ''A''), (''email'', JStr ''a@x.com'')]) demo_world =
       (respond 400 (message msg_fields_required), demo_world)"
proof -
  have missing:
    "map_of (body (request_with [] [(''name'', JStr ''A''), (''email'', JStr ''a@x.com'')]))
       ''password'' = None"
    by (simp add: request_with_def)
  from missing register_missing_field
         [of "request_with [] [(''name'', JStr ''A''), (''email'', JStr ''a@x.com'')]"
             demo_env demo_world]
  show ?thesis by simp
qed

section \<open>Removing a favorite\<close>

text \<open>
  Claim C9. The handler of DELETE /api/favorites/:id reads the variable \<^verbatim>\<open>id\<close>, which
  no scope binds (the route parameter was stored as \<^verbatim>\<open>poke_id\<close>), so building the
  arguments of the query throws and the handler answers 500 before the query is sent:
  the state is unchanged. Behind the middleware, every authenticated request gets that
  500; the route never answers 200 or 404, and the database is never changed.
\<close>

theorem delete_favorite_always_500:
  "read_var (delete_scope req) ''id'' = Inl (JsError ''ReferenceError'' ''id is not defined'')
   \<and> delete_favorites_id E req w = (respond 500 (message msg_favorite_remove_failed), w)
   \<and> (\<forall>req1 x1. authMiddleware E req (proc w) = (Inr req1, x1) \<longrightarrow>
         protected E delete_favorites_id req w =
           (respond 500 (message msg_favorite_remove_failed), \<lparr>db = db w, proc = x1\<rparr>))
   \<and> status (fst (protected E delete_favorites_id req w)) \<noteq> 200
   \<and> status (fst (protected E delete_favorites_id req w)) \<noteq> 404
   \<and> db (snd (protected E delete_favorites_id req w)) = db w"
proof -
  have unbound:
    "\<And>r. read_var (delete_scope r) ''id'' = Inl (JsError ''ReferenceError'' ''id is not defined'')"
    by (simp add: read_var_def delete_scope_def module_scope_def)
  have handler:
    "\<And>r v. delete_favorites_id E r v = (respond 500 (message msg_favorite_remove_failed), v)"
    by (simp add: delete_favorites_id_def unbound)
  show ?thesis
  proof (cases "authMiddleware E req (proc w)")
    case (Pair out x1)
    show ?thesis
    proof (cases out)
      case (Inl r)
      with Pair authMiddleware_status[of E req "proc w" r x1] show ?thesis
        by (auto simp add: handler unbound protected_def)
    next
      case (Inr req1)
      with Pair show ?thesis
        by (simp add: handler unbound protected_def respond_def)
    qed
  qed
qed

theorem delete_favorite_always_500_witness:
  "authMiddleware demo_env (request_with [(''authorization'', ''Bearer jwt.i'')] [])
     (proc demo_world) =
     (Inr ((request_with [(''authorization'', ''Bearer jwt.i'')] [])\<lparr>userId := JNum 1\<rparr>), 1)
   \<and> protected demo_env delete_favorites_id
        (request_with [(''authorization'', ''Bearer jwt.i'')] []) demo_world =
       (respond 500 (message msg_favorite_remove_failed), \<lparr>db = empty_store, proc = 1\<rparr>)"
  using delete_favorite_always_500
          [of "request_with [(''authorization'', ''Bearer jwt.i'')] []" demo_env demo_world]
        demo_bearer_accepted
  by (simp add: demo_world_def)

section \<open>The outcomes of a login\<close>

text \<open>The login handler answers with one of four status codes.\<close>

lemma post_auth_login_status:
    "status (fst (post_auth_login E req w)) = 404 \<or>
     status (fst (post_auth_login E req w)) = 400 \<or>
     status (fst (post_auth_login E req w)) = 200 \<or>
     status (fst (post_auth_login E req w)) = 500"
proof (cases "truthy (member (body req) ''email'') \<and> truthy (member (body req) ''password'')")
  case False
  then show ?thesis by (auto simp add: post_auth_login_def Let_def respond_def)
next
  case True
  show ?thesis
  proof (cases "pool_query E sql_select_user [member (body req) ''email''] (db w)")
    case (Pair res d1)
    show ?thesis
    proof (cases res)
      case (Inl error)
      with True Pair show ?thesis by (simp add: post_auth_login_def Let_def respond_def)
    next
      case (Inr rows)
      show ?thesis
      proof (cases rows)
        case Nil
        with True Pair Inr show ?thesis
          by (simp add: post_auth_login_def Let_def respond_def at_index_def)
      next
        case (Cons user more)
        show ?thesis
        proof (cases "bcrypt_compare E (member (body req) ''password'')
                        (member user ''password'') (proc w)")
          case cmp: (Pair ok x1)
          show ?thesis
          proof (cases ok)
            case (Inl error)
            with True Pair Inr Cons cmp show ?thesis
              by (simp add: post_auth_login_def Let_def respond_def at_index_def)
          next
            case isMatch: (Inr m)
            show ?thesis
            proof (cases m)
              case False
              with True Pair Inr Cons cmp isMatch show ?thesis
                by (simp add: post_auth_login_def Let_def respond_def at_index_def)
            next
              case True2: True
              show ?thesis
              proof (cases "jwt_sign E [(''userId'', member user ''id'')] (JWT_SECRET E) [] x1")
                case sg: (Pair tok x2)
                with True Pair Inr Cons cmp isMatch True2 show ?thesis
                  by (cases tok) (simp_all add: post_auth_login_def Let_def respond_def at_index_def)
              qed
            qed
          qed
        qed
      qed
    qed
  qed
qed

text \<open>
  Claim C4, as amended. For every login request whose \<^verbatim>\<open>email\<close> and \<^verbatim>\<open>password\<close> pass
  the handler's check (each present and truthy: not the empty string, not zero, not
  \<^verbatim>\<open>false\<close>, not \<^verbatim>\<open>null\<close>): when the lookup by email returns no row the handler
  answers 404; when it returns a row and the comparison of the password with the stored
  digest returns false the handler answers 400; when the comparison returns true and the
  token is signed the handler answers 200 with \<^verbatim>\<open>message\<close>, \<^verbatim>\<open>token\<close> and \<^verbatim>\<open>userId\<close>, the
  identifier of the first row; and when the lookup, the comparison or the signing fails
  (throws, as the comparison does for a password that is not a string) the handler
  answers 500 with its fixed message. These six cases are all the cases there are.
\<close>

theorem login_outcomes:
  assumes "truthy (member (body req) ''email'')"
      and "truthy (member (body req) ''password'')"
  shows
   "(\<forall>d1. pool_query E sql_select_user [member (body req) ''email''] (db w) = (Inr [], d1) \<longrightarrow>
        post_auth_login E req w =
          (respond 404 (message msg_user_not_found), \<lparr>db = d1, proc = proc w\<rparr>))
    \<and> (\<forall>user more d1 x1.
        pool_query E sql_select_user [member (body req) ''email''] (db w) =
          (Inr (user # more), d1) \<and>
        bcrypt_compare E (member (body req) ''password'') (member user ''password'') (proc w) =
          (Inr False, x1) \<longrightarrow>
        post_auth_login E req w =
          (respond 400 (message msg_wrong_password), \<lparr>db = d1, proc = x1\<rparr>))
    \<and> (\<forall>user more d1 x1 token x2.
        pool_query E sql_select_user [member (body req) ''email''] (db w) =
          (Inr (user # more), d1) \<and>
        bcrypt_compare E (member (body req) ''password'') (member user ''password'') (proc w) =
          (Inr True, x1) \<and>
        jwt_sign E [(''userId'', member user ''id'')] (JWT_SECRET E) [] x1 = (Inr token, x2) \<longrightarrow>
        post_auth_login E req w =
          (respond 200
             [(''message'', Data (JStr msg_logged_in)),
              (''token'', Data (JStr token)),
              (''userId'', Data (member user ''id''))],
           \<lparr>db = d1, proc = x2\<rparr>))
    \<and> (\<forall>error d1.
        pool_query E sql_select_user [member (body req) ''email''] (db w) = (Inl error, d1) \<longrightarrow>
        post_auth_login E req w =
          (respond 500 (message msg_login_failed), \<lparr>db = d1, proc = proc w\<rparr>))
    \<and> (\<forall>user more d1 error x1.
        pool_query E sql_select_user [member (body req) ''email''] (db w) =
          (Inr (user # more), d1) \<and>
        bcrypt_compare E (member (body req) ''password'') (member user ''password'') (proc w) =
          (Inl error, x1) \<longrightarrow>
        post_auth_login E req w =
          (respond 500 (message msg_login_failed), \<lparr>db = d1, proc = x1\<rparr>))
    \<and> (\<forall>user more d1 x1 error x2.
        pool_query E sql_select_user [member (body req) ''email''] (db w) =
          (Inr (user # more), d1) \<and>
        bcrypt_compare E (member (body req) ''password'') (member user ''password'') (proc w) =
          (Inr True, x1) \<and>
        jwt_sign E [(''userId'', member user ''id'')] (JWT_SECRET E) [] x1 = (Inl error, x2) \<longrightarrow>
        post_auth_login E req w =
          (respond 500 (message msg_login_failed), \<lparr>db = d1, proc = x2\<rparr>))
    \<and> (status (fst (post_auth_login E req w)) = 404 \<or>
        status (fst (post_auth_login E req w)) = 400 \<or>
        status (fst (post_auth_login E req w)) = 200 \<or>
        status (fst (post_auth_login E req w)) = 500)"
proof -
  have cases:
    "(\<forall>d1. pool_query E sql_select_user [member (body req) ''email''] (db w) = (Inr [], d1) \<longrightarrow>
        post_auth_login E req w =
          (respond 404 (message msg_user_not_found), \<lparr>db = d1, proc = proc w\<rparr>))
    \<and> (\<forall>user more d1 x1.
        pool_query E sql_select_user [member (body req) ''email''] (db w) =
          (Inr (user # more), d1) \<and>
        bcrypt_compare E (member (body req) ''password'') (member user ''password'') (proc w) =
          (Inr False, x1) \<longrightarrow>
        post_auth_login E req w =
          (respond 400 (message msg_wrong_password), \<lparr>db = d1, proc = x1\<rparr>))
    \<and> (\<forall>user more d1 x1 token x2.
        pool_query E sql_select_user [member (body req) ''email''] (db w) =
          (Inr (user # more), d1) \<and>
        bcrypt_compare E (member (body req) ''password'') (member user ''password'') (proc w) =
          (Inr True, x1) \<and>
        jwt_sign E [(''userId'', member user ''id'')] (JWT_SECRET E) [] x1 = (Inr token, x2) \<longrightarrow>
        post_auth_login E req w =
          (respond 200
             [(''message'', Data (JStr msg_logged_in)),
              (''token'', Data (JStr token)),
              (''userId'', Data (member user ''id''))],
           \<lparr>db = d1, proc = x2\<rparr>))
    \<and> (\<forall>error d1.
        pool_query E sql_select_user [member (body req) ''email''] (db w) = (Inl error, d1) \<longrightarrow>
        post_auth_login E req w =
          (respond 500 (message msg_login_failed), \<lparr>db = d1, proc = proc w\<rparr>))
    \<and> (\<forall>user more d1 error x1.
        pool_query E sql_select_user [member (body req) ''email''] (db w) =
          (Inr (user # more), d1) \<and>
        bcrypt_compare E (member (body req) ''password'') (member user ''password'') (proc w) =
          (Inl error, x1) \<longrightarrow>
        post_auth_login E req w =
          (respond 500 (message msg_login_failed), \<lparr>db = d1, proc = x1\<rparr>))
    \<and> (\<forall>user more d1 x1 error x2.
        pool_query E sql_select_user [member (body req) ''email''] (db w) =
          (Inr (user # more), d1) \<and>
        bcrypt_compare E (member (body req) ''password'') (member user ''password'') (proc w) =
          (Inr True, x1) \<and>
        jwt_sign E [(''userId'', member user ''id'')] (JWT_SECRET E) [] x1 = (Inl error, x2) \<longrightarrow>
        post_auth_login E req w =
          (respond 500 (message msg_login_failed), \<lparr>db = d1, proc = x2\<rparr>))"
    using assms by (simp add: post_auth_login_def Let_def at_index_def)
  note codes = post_auth_login_status[of E req w]
  from cases codes show ?thesis by (elim conjE) (intro conjI; assumption)
qed

theorem login_outcomes_witness:
  "post_auth_login demo_env
      (request_with [] [(''email'', JStr ''a@x.com''), (''password'', JStr ''p'')]) demo_world =
     (respond 404 (message msg_user_not_found), demo_world)
   \<and> post_auth_login demo_env
      (request_with [] [(''email'', JStr ''a@x.com''), (''password'', JStr ''q'')])
      \<lparr>db = alice_store, proc = 0\<rparr> =
     (respond 400 (message msg_wrong_password), \<lparr>db = alice_store, proc = 1\<rparr>)
   \<and> post_auth_login demo_env
      (request_with [] [(''email'', JStr ''a@x.com''), (''password'', JStr ''p'')])
      \<lparr>db = alice_store, proc = 0\<rparr> =
     (respond 200
        [(''message'', Data (JStr msg_logged_in)),
         (''token'', Data (JStr ''jwt.i'')),
         (''userId'', Data (JNum 1))],
      \<lparr>db = alice_store, proc = 2\<rparr>)
   \<and> post_auth_login demo_env_db_down
      (request_with [] [(''email'', JStr ''a@x.com''), (''password'', JStr ''p'')])
      \<lparr>db = alice_store, proc = 0\<rparr> =
     (respond 500 (message msg_login_failed), \<lparr>db = alice_store, proc = 0\<rparr>)
   \<and> post_auth_login demo_env
      (request_with [] [(''email'', JStr ''a@x.com''), (''password'', JNum 5)])
      \<lparr>db = alice_store, proc = 0\<rparr> =
     (respond 500 (message msg_login_failed), \<lparr>db = alice_store, proc = 1\<rparr>)
   \<and> post_auth_login demo_env_no_secret
      (request_with [] [(''email'', JStr ''a@x.com''), (''password'', JStr ''p'')])
      \<lparr>db = alice_store, proc = 0\<rparr> =
     (respond 500 (message msg_login_failed), \<lparr>db = alice_store, proc = 2\<rparr>)"
proof -
  have a: "post_auth_login demo_env
      (request_with [] [(''email'', JStr ''a@x.com''), (''password'', JStr ''p'')]) demo_world =
     (respond 404 (message msg_user_not_found), demo_world)"
    using login_outcomes
      [of "request_with [] [(''email'', JStr ''a@x.com''), (''password'', JStr ''p'')]"
          demo_env demo_world]
    by (simp add: request_with_def member_def demo_env_simps demo_select_user demo_world_def
          empty_store_def)
  have b: "post_auth_login demo_env
      (request_with [] [(''email'', JStr ''a@x.com''), (''password'', JStr ''q'')])
      \<lparr>db = alice_store, proc = 0\<rparr> =
     (respond 400 (message msg_wrong_password), \<lparr>db = alice_store, proc = 1\<rparr>)"
    using login_outcomes
      [of "request_with [] [(''email'', JStr ''a@x.com''), (''password'', JStr ''q'')]"
          demo_env "\<lparr>db = alice_store, proc = 0\<rparr>"]
    by (simp add: request_with_def member_def demo_env_simps demo_select_user alice_store_def
          alice_row_def demo_compare_def)
  have c: "post_auth_login demo_env
      (request_with [] [(''email'', JStr ''a@x.com''), (''password'', JStr ''p'')])
      \<lparr>db = alice_store, proc = 0\<rparr> =
     (respond 200
        [(''message'', Data (JStr msg_logged_in)),
         (''token'', Data (JStr ''jwt.i'')),
         (''userId'', Data (JNum 1))],
      \<lparr>db = alice_store, proc = 2\<rparr>)"
    using login_outcomes
      [of "request_with [] [(''email'', JStr ''a@x.com''), (''password'', JStr ''p'')]"
          demo_env "\<lparr>db = alice_store, proc = 0\<rparr>"]
    by (simp add: request_with_def member_def demo_env_simps demo_select_user alice_store_def
          alice_row_def demo_compare_def demo_sign_def)
  have d: "post_auth_login demo_env_db_down
      (request_with [] [(''email'', JStr ''a@x.com''), (''password'', JStr ''p'')])
      \<lparr>db = alice_store, proc = 0\<rparr> =
     (respond 500 (message msg_login_failed), \<lparr>db = alice_store, proc = 0\<rparr>)"
    using login_outcomes
      [of "request_with [] [(''email'', JStr ''a@x.com''), (''password'', JStr ''p'')]"
          demo_env_db_down "\<lparr>db = alice_store, proc = 0\<rparr>"]
    by (simp add: request_with_def member_def demo_env_db_down_def)
  have e: "post_auth_login demo_env
      (request_with [] [(''email'', JStr ''a@x.com''), (''password'', JNum 5)])
      \<lparr>db = alice_store, proc = 0\<rparr> =
     (respond 500 (message msg_login_failed), \<lparr>db = alice_store, proc = 1\<rparr>)"
    using login_outcomes
      [of "request_with [] [(''email'', JStr ''a@x.com''), (''password'', JNum 5)]"
          demo_env "\<lparr>db = alice_store, proc = 0\<rparr>"]
    by (simp add: request_with_def member_def demo_env_simps demo_select_user alice_store_def
          alice_row_def demo_compare_def)
  have f: "post_auth_login demo_env_no_secret
      (request_with [] [(''email'', JStr ''a@x.com''), (''password'', JStr ''p'')])
      \<lparr>db = alice_store, proc = 0\<rparr> =
     (respond 500 (message msg_login_failed), \<lparr>db = alice_store, proc = 2\<rparr>)"
    using login_outcomes
      [of "request_with [] [(''email'', JStr ''a@x.com''), (''password'', JStr ''p'')]"
          demo_env_no_secret "\<lparr>db = alice_store, proc = 0\<rparr>"]
    by (simp add: request_with_def member_def demo_env_no_secret_simps demo_select_user
          alice_store_def alice_row_def demo_compare_def demo_sign_def)
  from a b c d e f show ?thesis by simp
qed

text \<open>
  The claim as it was written covers every request in which both fields are present, and
  gives 400 whenever the user exists and the password does not verify. A request whose
  password is the empty string has both fields, and no user with its email is stored, yet
  it is answered 400 by the check \<^verbatim>\<open>!email || !password\<close>, not 404. And a request whose
  password is the number 5, for a user that exists, is answered 500, not 400: the
  comparison does not return false, it throws, and the handler's \<^verbatim>\<open>catch\<close> answers.
\<close>

theorem login_outcomes_counterexample:
  "map_of (body (request_with [] [(''email'', JStr ''a@x.com''), (''password'', JStr [])]))
      ''email'' = Some (JStr ''a@x.com'')
   \<and> map_of (body (request_with [] [(''email'', JStr ''a@x.com''), (''password'', JStr [])]))
      ''password'' = Some (JStr [])
   \<and> pool_query demo_env sql_select_user [JStr ''a@x.com''] (db demo_world) =
       (Inr [], db demo_world)
   \<and> post_auth_login demo_env
        (request_with [] [(''email'', JStr ''a@x.com''), (''password'', JStr [])]) demo_world =
       (respond 400 (message msg_fields_required), demo_world)
   \<and> status (respond 400 (message msg_fields_required)) \<noteq> 404
   \<and> map_of (body (request_with [] [(''email'', JStr ''a@x.com''), (''password'', JNum 5)]))
      ''password'' = Some (JNum 5)
   \<and> pool_query demo_env sql_select_user [JStr ''a@x.com''] alice_store =
       (Inr [alice_row], alice_store)
   \<and> bcrypt_compare demo_env (JNum 5) (member alice_row ''password'') 0 =
       (Inl (JsError ''Error'' ''Illegal arguments''), 1)
   \<and> post_auth_login demo_env
        (request_with [] [(''email'', JStr ''a@x.com''), (''password'', JNum 5)])
        \<lparr>db = alice_store, proc = 0\<rparr> =
       (respond 500 (message msg_login_failed), \<lparr>db = alice_store, proc = 1\<rparr>)
   \<and> status (respond 500 (message msg_login_failed)) \<noteq> 400"
  by (simp add: post_auth_login_def request_with_def member_def demo_env_simps
        demo_select_user demo_world_def empty_store_def respond_def alice_store_def
        alice_row_def demo_compare_def at_index_def)

section \<open>Adding a favorite\<close>

text \<open>
  The insert of this handler names three target columns and gives two values, so a
  database that keeps PostgreSQL's rule rejects it whatever its arguments are.
\<close>

lemma post_favorites_status:
  assumes "pg_rejects_arity_mismatch E"
  shows "status (fst (post_favorites E req w)) \<noteq> 201"
proof -
  have rej: "\<And>args d. \<exists>error d1. pool_query E sql_insert_favorite args d = (Inl error, d1)"
    using assms arity_insert_favorite(3) by (simp add: pg_rejects_arity_mismatch_def)
  show ?thesis
  proof (cases "pool_query E sql_select_favorite [userId req, member (body req) ''name''] (db w)")
    case (Pair res d1)
    obtain error d2 where
      "pool_query E sql_insert_favorite [userId req, member (body req) ''name''] d1 = (Inl error, d2)"
      using rej by blast
    with Pair show ?thesis
      by (cases res) (simp_all add: post_favorites_def Let_def respond_def)
  qed
qed

text \<open>
  Claim C10, as amended. Of a database that rejects an INSERT whose column list and value
  list differ in length: the handler's insert has three columns and two values; for every
  request whose \<^verbatim>\<open>name\<close> and \<^verbatim>\<open>poke_id\<close> pass the handler's check (each present and
  truthy: not the empty string, not zero, not \<^verbatim>\<open>false\<close>, not \<^verbatim>\<open>null\<close>) and for which the
  lookup finds no favorite of that user and name, the handler answers 500; and neither the
  handler nor the route behind the middleware ever answers 201.
\<close>

theorem add_favorite_insert_fails:
  assumes "pg_rejects_arity_mismatch E"
  shows "length (target_columns sql_insert_favorite) = 3
   \<and> length (value_expressions sql_insert_favorite) = 2
   \<and> (\<forall>d1. truthy (member (body req) ''name'') \<and> truthy (member (body req) ''poke_id'') \<and>
         pool_query E sql_select_favorite [userId req, member (body req) ''name''] (db w) =
           (Inr [], d1) \<longrightarrow>
         fst (post_favorites E req w) = respond 500 (message msg_favorite_add_failed))
   \<and> status (fst (post_favorites E req w)) \<noteq> 201
   \<and> status (fst (protected E post_favorites req w)) \<noteq> 201"
proof -
  have rej: "\<And>args d. \<exists>error d1. pool_query E sql_insert_favorite args d = (Inl error, d1)"
    using assms arity_insert_favorite(3) by (simp add: pg_rejects_arity_mismatch_def)
  have lookup_empty:
    "fst (post_favorites E req w) = respond 500 (message msg_favorite_add_failed)"
    if "truthy (member (body req) ''name'')" and "truthy (member (body req) ''poke_id'')"
      and "pool_query E sql_select_favorite [userId req, member (body req) ''name''] (db w) =
             (Inr [], d1)" for d1
  proof -
    obtain error d2 where
      "pool_query E sql_insert_favorite [userId req, member (body req) ''name''] d1 = (Inl error, d2)"
      using rej by blast
    with that show ?thesis by (simp add: post_favorites_def Let_def)
  qed
  have route: "status (fst (protected E post_favorites req w)) \<noteq> 201"
  proof (cases "authMiddleware E req (proc w)")
    case (Pair out x1)
    show ?thesis
    proof (cases out)
      case (Inl r)
      with Pair authMiddleware_status[of E req "proc w" r x1] show ?thesis
        by (auto simp add: protected_def)
    next
      case (Inr req1)
      with Pair post_favorites_status[OF assms, of req1 "\<lparr>db = db w, proc = x1\<rparr>"]
      show ?thesis by (simp add: protected_def)
    qed
  qed
  from lookup_empty route post_favorites_status[OF assms, of req w] show ?thesis
    by (simp add: arity_insert_favorite)
qed

theorem add_favorite_insert_fails_witness:
  "pg_rejects_arity_mismatch demo_env
   \<and> truthy (member [(''name'', JStr ''pikachu''), (''poke_id'', JNum 25)] ''name'')
   \<and> truthy (member [(''name'', JStr ''pikachu''), (''poke_id'', JNum 25)] ''poke_id'')
   \<and> pool_query demo_env sql_select_favorite [JNum 1, JStr ''pikachu''] (db demo_world) =
       (Inr [], db demo_world)
   \<and> fst (post_favorites demo_env
        ((request_with [] [(''name'', JStr ''pikachu''), (''poke_id'', JNum 25)])
           \<lparr>userId := JNum 1\<rparr>) demo_world) =
       respond 500 (message msg_favorite_add_failed)"
  using add_favorite_insert_fails
    [OF demo_pg_rejects,
     of "(request_with [] [(''name'', JStr ''pikachu''), (''poke_id'', JNum 25)])
           \<lparr>userId := JNum 1\<rparr>" demo_world]
    demo_pg_rejects
  by (simp add: request_with_def member_def demo_env_simps demo_select_favorite
        demo_world_def empty_store_def)

text \<open>
  The claim as it was written covers every request in which \<^verbatim>\<open>name\<close> and \<^verbatim>\<open>poke_id\<close>
  are present. A request with \<^verbatim>\<open>poke_id\<close> zero has both, and the user has no such
  favorite, yet it is answered 400 by the check \<^verbatim>\<open>!name || !poke_id\<close>, not 500.
\<close>

theorem add_favorite_zero_id_counterexample:
  "map_of (body ((request_with [] [(''name'', JStr ''pikachu''), (''poke_id'', JNum 0)])
                   \<lparr>userId := JNum 1\<rparr>)) ''name'' = Some (JStr ''pikachu'')
   \<and> map_of (body ((request_with [] [(''name'', JStr ''pikachu''), (''poke_id'', JNum 0)])
                   \<lparr>userId := JNum 1\<rparr>)) ''poke_id'' = Some (JNum 0)
   \<and> pool_query demo_env sql_select_favorite [JNum 1, JStr ''pikachu''] (db demo_world) =
       (Inr [], db demo_world)
   \<and> post_favorites demo_env
        ((request_with [] [(''name'', JStr ''pikachu''), (''poke_id'', JNum 0)])
           \<lparr>userId := JNum 1\<rparr>) demo_world =
       (respond 400 (message msg_favorite_required), demo_world)
   \<and> status (respond 400 (message msg_favorite_required)) \<noteq> 500"
  by (simp add: post_favorites_def request_with_def member_def demo_env_simps
        demo_select_favorite demo_world_def empty_store_def respond_def)

section \<open>What a failure shows to the client\<close>

lemma handlers_expose_nothing:
  "\<not> exposes_error (fst (post_auth_register E req w))"
  "\<not> exposes_error (fst (post_auth_login E req w))"
  "\<not> exposes_error (fst (post_favorites E req w))"
  "\<not> exposes_error (fst (get_favorites E req w))"
  "\<not> exposes_error (fst (delete_favorites_id E req w))"
  by (auto simp add: post_auth_register_def post_auth_login_def post_favorites_def
        get_favorites_def delete_favorites_id_def Let_def exposes_error_def respond_def
        message_def split: prod.splits sum.splits option.splits)

lemma authMiddleware_exposes:
  assumes "authMiddleware E req x = (Inl r, x1)" and "exposes_error r"
  shows "\<exists>h error. map_of (headers req) ''authorization'' = Some h \<and>
           startsWith h ''Bearer '' \<and>
           jwt_verify E (between_first_and_second_space h) (JWT_SECRET E) x = (Inl error, x1) \<and>
           err_name error \<noteq> ''TokenExpiredError'' \<and>
           r = respond 401 [(''message'', Thrown error)]"
proof (cases "map_of (headers req) ''authorization''")
  case None
  with assms show ?thesis
    by (auto simp add: authMiddleware_def exposes_error_def respond_def message_def)
next
  case (Some h)
  show ?thesis
  proof (cases "startsWith h ''Bearer ''")
    case False
    with Some assms show ?thesis
      by (auto simp add: authMiddleware_def exposes_error_def respond_def message_def
               split: if_splits)
  next
    case True
    with Some assms show ?thesis
      by (auto simp add: authMiddleware_bearer exposes_error_def respond_def message_def
               split: if_splits prod.splits sum.splits)
  qed
qed

text \<open>
  Claim C7. In the registration handler a failure of the hash, of the insert or of the
  signing, and in the login handler a failure of the lookup, of the password comparison
  or of the signing, each gives the answer 500 with the handler's fixed message, which
  holds no error object. No answer of any of the five handlers holds an error object.
  An answer of the middleware holds one only when the verification of the token failed
  with an error other than the expired-token error: it is then the 401 whose message is
  that error.
\<close>

theorem failures_answer_generic_500:
  "(truthy (member (body req) ''name'') \<and> truthy (member (body req) ''email'') \<and>
    truthy (member (body req) ''password'') \<longrightarrow>
      (\<forall>error x1.
          bcrypt_hash E (member (body req) ''password'') 10 (proc w) = (Inl error, x1) \<longrightarrow>
          fst (post_auth_register E req w) = respond 500 (message msg_register_failed))
      \<and> (\<forall>digest x1 error d1.
          bcrypt_hash E (member (body req) ''password'') 10 (proc w) = (Inr digest, x1) \<and>
          pool_query E sql_insert_user
            [member (body req) ''name'', member (body req) ''email'', JStr digest] (db w) =
            (Inl error, d1) \<longrightarrow>
          fst (post_auth_register E req w) = respond 500 (message msg_register_failed))
      \<and> (\<forall>digest x1 user more d1 error x2.
          bcrypt_hash E (member (body req) ''password'') 10 (proc w) = (Inr digest, x1) \<and>
          pool_query E sql_insert_user
            [member (body req) ''name'', member (body req) ''email'', JStr digest] (db w) =
            (Inr (user # more), d1) \<and>
          jwt_sign E [(''userId'', member user ''id'')] (JWT_SECRET E) [] x1 = (Inl error, x2) \<longrightarrow>
          fst (post_auth_register E req w) = respond 500 (message msg_register_failed)))
   \<and> (truthy (member (body req) ''email'') \<and> truthy (member (body req) ''password'') \<longrightarrow>
      (\<forall>error d1.
          pool_query E sql_select_user [member (body req) ''email''] (db w) = (Inl error, d1) \<longrightarrow>
          fst (post_auth_login E req w) = respond 500 (message msg_login_failed))
      \<and> (\<forall>user more d1 error x1.
          pool_query E sql_select_user [member (body req) ''email''] (db w) =
            (Inr (user # more), d1) \<and>
          bcrypt_compare E (member (body req) ''password'') (member user ''password'') (proc w) =
            (Inl error, x1) \<longrightarrow>
          fst (post_auth_login E req w) = respond 500 (message msg_login_failed))
      \<and> (\<forall>user more d1 x1 error x2.
          pool_query E sql_select_user [member (body req) ''email''] (db w) =
            (Inr (user # more), d1) \<and>
          bcrypt_compare E (member (body req) ''password'') (member user ''password'') (proc w) =
            (Inr True, x1) \<and>
          jwt_sign E [(''userId'', member user ''id'')] (JWT_SECRET E) [] x1 = (Inl error, x2) \<longrightarrow>
          fst (post_auth_login E req w) = respond 500 (message msg_login_failed)))
   \<and> \<not> exposes_error (respond 500 (message msg_register_failed))
   \<and> \<not> exposes_error (respond 500 (message msg_login_failed))
   \<and> \<not> exposes_error (fst (post_auth_register E req w))
   \<and> \<not> exposes_error (fst (post_auth_login E req w))
   \<and> \<not> exposes_error (fst (post_favorites E req w))
   \<and> \<not> exposes_error (fst (get_favorites E req w))
   \<and> \<not> exposes_error (fst (delete_favorites_id E req w))
   \<and> (\<forall>r x1. authMiddleware E req x = (Inl r, x1) \<and> exposes_error r \<longrightarrow>
         (\<exists>h error. map_of (headers req) ''authorization'' = Some h \<and>
            startsWith h ''Bearer '' \<and>
            jwt_verify E (between_first_and_second_space h) (JWT_SECRET E) x = (Inl error, x1) \<and>
            err_name error \<noteq> ''TokenExpiredError'' \<and>
            r = respond 401 [(''message'', Thrown error)]))
   \<and> (\<forall>error. exposes_error (respond 401 [(''message'', Thrown error)]))"
proof -
  have reg: "truthy (member (body req) ''name'') \<and> truthy (member (body req) ''email'') \<and>
    truthy (member (body req) ''password'') \<longrightarrow>
      (\<forall>error x1.
          bcrypt_hash E (member (body req) ''password'') 10 (proc w) = (Inl error, x1) \<longrightarrow>
          fst (post_auth_register E req w) = respond 500 (message msg_register_failed))
      \<and> (\<forall>digest x1 error d1.
          bcrypt_hash E (member (body req) ''password'') 10 (proc w) = (Inr digest, x1) \<and>
          pool_query E sql_insert_user
            [member (body req) ''name'', member (body req) ''email'', JStr digest] (db w) =
            (Inl error, d1) \<longrightarrow>
          fst (post_auth_register E req w) = respond 500 (message msg_register_failed))
      \<and> (\<forall>digest x1 user more d1 error x2.
          bcrypt_hash E (member (body req) ''password'') 10 (proc w) = (Inr digest, x1) \<and>
          pool_query E sql_insert_user
            [member (body req) ''name'', member (body req) ''email'', JStr digest] (db w) =
            (Inr (user # more), d1) \<and>
          jwt_sign E [(''userId'', member user ''id'')] (JWT_SECRET E) [] x1 = (Inl error, x2) \<longrightarrow>
          fst (post_auth_register E req w) = respond 500 (message msg_register_failed))"
    by (simp add: post_auth_register_def Let_def at_index_def)
  have log: "truthy (member (body req) ''email'') \<and> truthy (member (body req) ''password'') \<longrightarrow>
      (\<forall>error d1.
          pool_query E sql_select_user [member (body req) ''email''] (db w) = (Inl error, d1) \<longrightarrow>
          fst (post_auth_login E req w) = respond 500 (message msg_login_failed))
      \<and> (\<forall>user more d1 error x1.
          pool_query E sql_select_user [member (body req) ''email''] (db w) =
            (Inr (user # more), d1) \<and>
          bcrypt_compare E (member (body req) ''password'') (member user ''password'') (proc w) =
            (Inl error, x1) \<longrightarrow>
          fst (post_auth_login E req w) = respond 500 (message msg_login_failed))
      \<and> (\<forall>user more d1 x1 error x2.
          pool_query E sql_select_user [member (body req) ''email''] (db w) =
            (Inr (user # more), d1) \<and>
          bcrypt_compare E (member (body req) ''password'') (member user ''password'') (proc w) =
            (Inr True, x1) \<and>
          jwt_sign E [(''userId'', member user ''id'')] (JWT_SECRET E) [] x1 = (Inl error, x2) \<longrightarrow>
          fst (post_auth_login E req w) = respond 500 (message msg_login_failed))"
    by (simp add: post_auth_login_def Let_def at_index_def)
  have plain: "\<not> exposes_error (respond 500 (message msg_register_failed))"
    "\<not> exposes_error (respond 500 (message msg_login_failed))"
    by (simp_all add: exposes_error_def respond_def message_def)
  have thrown: "\<forall>error. exposes_error (respond 401 [(''message'', Thrown error)])"
    by (simp add: exposes_error_def respond_def)
  have gate: "\<forall>r x1. authMiddleware E req x = (Inl r, x1) \<and> exposes_error r \<longrightarrow>
         (\<exists>h error. map_of (headers req) ''authorization'' = Some h \<and>
            startsWith h ''Bearer '' \<and>
            jwt_verify E (between_first_and_second_space h) (JWT_SECRET E) x = (Inl error, x1) \<and>
            err_name error \<noteq> ''TokenExpiredError'' \<and>
            r = respond 401 [(''message'', Thrown error)])"
  proof (intro allI impI)
    fix r x1
    assume "authMiddleware E req x = (Inl r, x1) \<and> exposes_error r"
    then show "\<exists>h error. map_of (headers req) ''authorization'' = Some h \<and>
            startsWith h ''Bearer '' \<and>
            jwt_verify E (between_first_and_second_space h) (JWT_SECRET E) x = (Inl error, x1) \<and>
            err_name error \<noteq> ''TokenExpiredError'' \<and>
            r = respond 401 [(''message'', Thrown error)]"
      using authMiddleware_exposes[of E req x r x1] by simp
  qed
  note quiet = handlers_expose_nothing[of E req w]
  show ?thesis
    by (intro conjI; (fact reg | fact log | fact plain | fact thrown | fact gate | fact quiet))
qed

theorem failures_answer_generic_500_witness:
  "fst (post_auth_register demo_env
          (request_with [] [(''name'', JStr ''A''), (''email'', JStr ''a@x.com''),
                            (''password'', JNum 5)]) demo_world) =
     respond 500 (message msg_register_failed)
   \<and> fst (post_auth_register demo_env
          (request_with [] [(''name'', JStr ''B''), (''email'', JStr ''a@x.com''),
                            (''password'', JStr ''q'')]) \<lparr>db = alice_store, proc = 0\<rparr>) =
     respond 500 (message msg_register_failed)
   \<and> fst (post_auth_register demo_env_no_secret
          (request_with [] [(''name'', JStr ''A''), (''email'', JStr ''a@x.com''),
                            (''password'', JStr ''p'')]) demo_world) =
     respond 500 (message msg_register_failed)
   \<and> fst (post_auth_login demo_env_db_down
          (request_with [] [(''email'', JStr ''a@x.com''), (''password'', JStr ''p'')])
          \<lparr>db = alice_store, proc = 0\<rparr>) =
     respond 500 (message msg_login_failed)
   \<and> fst (post_auth_login demo_env
          (request_with [] [(''email'', JStr ''a@x.com''), (''password'', JNum 5)])
          \<lparr>db = alice_store, proc = 0\<rparr>) =
     respond 500 (message msg_login_failed)
   \<and> fst (post_auth_login demo_env_no_secret
          (request_with [] [(''email'', JStr ''a@x.com''), (''password'', JStr ''p'')])
          \<lparr>db = alice_store, proc = 0\<rparr>) =
     respond 500 (message msg_login_failed)
   \<and> authMiddleware demo_env (request_with [(''authorization'', ''Bearer garbage'')] []) 0 =
       (Inl (respond 401
          [(''message'', Thrown (JsError ''JsonWebTokenError'' ''jwt malformed''))]), 1)
   \<and> exposes_error (respond 401
          [(''message'', Thrown (JsError ''JsonWebTokenError'' ''jwt malformed''))])
   \<and> (\<exists>h error.
         map_of (headers (request_with [(''authorization'', ''Bearer garbage'')] []))
           ''authorization'' = Some h \<and>
         jwt_verify demo_env (between_first_and_second_space h) (JWT_SECRET demo_env) 0 =
           (Inl error, 1) \<and>
         err_name error \<noteq> ''TokenExpiredError'')"
proof -
  have w1: "fst (post_auth_register demo_env
          (request_with [] [(''name'', JStr ''A''), (''email'', JStr ''a@x.com''),
                            (''password'', JNum 5)]) demo_world) =
     respond 500 (message msg_register_failed)"
    using failures_answer_generic_500
      [of "request_with [] [(''name'', JStr ''A''), (''email'', JStr ''a@x.com''),
                            (''password'', JNum 5)]" demo_env demo_world 0]
    by (simp add: request_with_def member_def demo_env_simps demo_hash_def)
  have w2: "fst (post_auth_register demo_env
          (request_with [] [(''name'', JStr ''B''), (''email'', JStr ''a@x.com''),
                            (''password'', JStr ''q'')]) \<lparr>db = alice_store, proc = 0\<rparr>) =
     respond 500 (message msg_register_failed)"
    using failures_answer_generic_500
      [of "request_with [] [(''name'', JStr ''B''), (''email'', JStr ''a@x.com''),
                            (''password'', JStr ''q'')]" demo_env
          "\<lparr>db = alice_store, proc = 0\<rparr>" 0]
    by (simp add: request_with_def member_def demo_env_simps demo_hash_def demo_insert_user
          alice_store_def alice_row_def)
  have w3: "fst (post_auth_register demo_env_no_secret
          (request_with [] [(''name'', JStr ''A''), (''email'', JStr ''a@x.com''),
                            (''password'', JStr ''p'')]) demo_world) =
     respond 500 (message msg_register_failed)"
    using failures_answer_generic_500
      [of "request_with [] [(''name'', JStr ''A''), (''email'', JStr ''a@x.com''),
                            (''password'', JStr ''p'')]" demo_env_no_secret demo_world 0]
    by (simp add: request_with_def member_def demo_env_no_secret_simps demo_hash_def
          demo_insert_user demo_world_def empty_store_def demo_sign_def)
  have w4: "fst (post_auth_login demo_env_db_down
          (request_with [] [(''email'', JStr ''a@x.com''), (''password'', JStr ''p'')])
          \<lparr>db = alice_store, proc = 0\<rparr>) =
     respond 500 (message msg_login_failed)"
    using failures_answer_generic_500
      [of "request_with [] [(''email'', JStr ''a@x.com''), (''password'', JStr ''p'')]"
          demo_env_db_down "\<lparr>db = alice_store, proc = 0\<rparr>" 0]
    by (simp add: request_with_def member_def demo_env_db_down_def)
  have w5: "fst (post_auth_login demo_env
          (request_with [] [(''email'', JStr ''a@x.com''), (''password'', JNum 5)])
          \<lparr>db = alice_store, proc = 0\<rparr>) =
     respond 500 (message msg_login_failed)"
    using failures_answer_generic_500
      [of "request_with [] [(''email'', JStr ''a@x.com''), (''password'', JNum 5)]"
          demo_env "\<lparr>db = alice_store, proc = 0\<rparr>" 0]
    by (simp add: request_with_def member_def demo_env_simps demo_select_user
          alice_store_def alice_row_def demo_compare_def)
  have w6: "fst (post_auth_login demo_env_no_secret
          (request_with [] [(''email'', JStr ''a@x.com''), (''password'', JStr ''p'')])
          \<lparr>db = alice_store, proc = 0\<rparr>) =
     respond 500 (message msg_login_failed)"
    using failures_answer_generic_500
      [of "request_with [] [(''email'', JStr ''a@x.com''), (''password'', JStr ''p'')]"
          demo_env_no_secret "\<lparr>db = alice_store, proc = 0\<rparr>" 0]
    by (simp add: request_with_def member_def demo_env_no_secret_simps demo_select_user
          alice_store_def alice_row_def demo_compare_def demo_sign_def)
  have run: "authMiddleware demo_env (request_with [(''authorization'', ''Bearer garbage'')] []) 0 =
       (Inl (respond 401
          [(''message'', Thrown (JsError ''JsonWebTokenError'' ''jwt malformed''))]), 1)"
    by (simp add: authMiddleware_bearer request_with_def startsWith_def
          between_first_and_second_space_def demo_env_simps demo_verify_garbage)
  have shown: "exposes_error (respond 401
          [(''message'', Thrown (JsError ''JsonWebTokenError'' ''jwt malformed''))])"
    by (simp add: exposes_error_def respond_def)
  have gate: "\<forall>r x1.
         authMiddleware demo_env (request_with [(''authorization'', ''Bearer garbage'')] []) 0 =
           (Inl r, x1) \<and> exposes_error r \<longrightarrow>
         (\<exists>h error.
            map_of (headers (request_with [(''authorization'', ''Bearer garbage'')] []))
              ''authorization'' = Some h \<and>
            startsWith h ''Bearer '' \<and>
            jwt_verify demo_env (between_first_and_second_space h) (JWT_SECRET demo_env) 0 =
              (Inl error, x1) \<and>
            err_name error \<noteq> ''TokenExpiredError'' \<and>
            r = respond 401 [(''message'', Thrown error)])"
    using failures_answer_generic_500
      [of "request_with [(''authorization'', ''Bearer garbage'')] []" demo_env demo_world 0]
    by (elim conjE) assumption
  have w7: "\<exists>h error.
         map_of (headers (request_with [(''authorization'', ''Bearer garbage'')] []))
           ''authorization'' = Some h \<and>
         jwt_verify demo_env (between_first_and_second_space h) (JWT_SECRET demo_env) 0 =
           (Inl error, 1) \<and>
         err_name error \<noteq> ''TokenExpiredError''"
    using gate run shown by blast
  from w1 w2 w3 w4 w5 w6 w7 run shown show ?thesis by simp
qed

section \<open>Tokens: what is signed and what is verified\<close>

subsection \<open>The small environment keeps the contracts\<close>

lemma demo_sign_Inr:
  assumes "demo_sign payload secret options x = (Inr t, x1)"
  shows "\<exists>n. payload = [(''userId'', JNum n)] \<and> 0 \<le> n \<and> options = [] \<and>
             t = ''jwt.'' @ replicate (nat n) CHR ''i''"
  using assms
  by (auto simp add: demo_sign_def split: list.splits prod.splits jsval.splits if_splits)

lemma demo_decode_jwt:
  "demo_decode (''jwt.'' @ replicate k CHR ''i'') = Some [(''userId'', JNum (int k))]"
  by (simp add: demo_decode_def startsWith_def)

lemma demo_sign_embeds: "jwt_sign_embeds demo_env"
  unfolding jwt_sign_embeds_def
proof (intro allI impI)
  fix payload secret options x t x1
  assume "jwt_sign demo_env payload secret options x = (Inr t, x1)"
  then have "demo_sign payload secret options x = (Inr t, x1)" by (simp add: demo_env_simps)
  then obtain n where p: "payload = [(''userId'', JNum n)]" and n: "0 \<le> n"
    and t: "t = ''jwt.'' @ replicate (nat n) CHR ''i''"
    using demo_sign_Inr by blast
  from t n have "demo_decode t = Some [(''userId'', JNum n)]"
    using demo_decode_jwt[of "nat n"] by simp
  with p show "\<exists>claims. jwt_decode demo_env t = Some claims \<and>
           (\<forall>k. k \<notin> set registered_claims \<and> scalar (member payload k) \<longrightarrow>
                member claims k = member payload k) \<and>
           (member payload ''exp'' = JUndefined \<and> member options ''expiresIn'' = JUndefined
              \<longrightarrow> member claims ''exp'' = JUndefined)"
    by (simp add: demo_env_simps member_def)
qed


lemma demo_verify_sound: "jwt_verify_sound demo_env"
  by (auto simp add: jwt_verify_sound_def demo_env_simps demo_verify_def
           split: option.splits if_splits)

lemma demo_expired_only_with_exp: "jwt_expired_only_with_exp demo_env"
  by (auto simp add: jwt_expired_only_with_exp_def demo_env_simps demo_verify_def
           split: option.splits if_splits)



lemma demo_register_alice:
  "post_auth_register demo_env
     (request_with [] [(''name'', JStr ''A''), (''email'', JStr ''a@x.com''),
                       (''password'', JStr ''p'')]) demo_world =
     (respond 201
        [(''message'', Data (JStr msg_registered)),
         (''token'', Data (JStr ''jwt.i'')),
         (''userId'', Data (JNum 1))],
      \<lparr>db = alice_store, proc = 2\<rparr>)"
  by (simp add: post_auth_register_def request_with_def member_def demo_env_simps
        demo_hash_def demo_insert_user demo_world_def empty_store_def at_index_def
        demo_sign_def alice_store_def alice_row_def)

lemma demo_alice_issued:
  "issues (fst (post_auth_register demo_env
       (request_with [] [(''name'', JStr ''A''), (''email'', JStr ''a@x.com''),
                         (''password'', JStr ''p'')]) demo_world)) ''jwt.i'' (JNum 1)"
  by (simp add: demo_register_alice issues_def respond_def)

lemma demo_bearer_header:
  "map_of (headers (request_with [(''authorization'', ''Bearer jwt.i'')] [])) ''authorization'' =
     Some ''Bearer jwt.i''"
  "between_first_and_second_space ''Bearer jwt.i'' = ''jwt.i''"
  by (simp_all add: request_with_def between_first_and_second_space_def)

subsection \<open>What the handlers sign\<close>

text \<open>
  A token in a response of the registration or of the login handler was signed by the
  handler for the payload \<^verbatim>\<open>{ userId: user.id }\<close>, with the secret and no options, and
  \<^verbatim>\<open>user.id\<close> is the \<^verbatim>\<open>userId\<close> of the same response.
\<close>

lemma register_issues:
  assumes "issues (fst (post_auth_register E req w)) t uid"
  shows "\<exists>x x1. jwt_sign E [(''userId'', uid)] (JWT_SECRET E) [] x = (Inr t, x1)"
  using assms
  by (auto simp add: post_auth_register_def issues_def Let_def respond_def message_def
           split: if_splits prod.splits sum.splits option.splits)

lemma login_issues:
  assumes "issues (fst (post_auth_login E req w)) t uid"
  shows "\<exists>x x1. jwt_sign E [(''userId'', uid)] (JWT_SECRET E) [] x = (Inr t, x1)"
  using assms
  by (auto simp add: post_auth_login_def issues_def Let_def respond_def message_def
           split: if_splits prod.splits sum.splits option.splits)

lemma issued_claims:
  assumes emb: "jwt_sign_embeds E"
      and iss: "issues (fst (post_auth_register E req w)) t uid \<or>
                issues (fst (post_auth_login E req w)) t uid"
  shows "\<exists>claims. jwt_decode E t = Some claims \<and>
                  (scalar uid \<longrightarrow> member claims ''userId'' = uid) \<and>
                  member claims ''exp'' = JUndefined"
proof -
  from iss obtain x x1 where
    s: "jwt_sign E [(''userId'', uid)] (JWT_SECRET E) [] x = (Inr t, x1)"
    using register_issues login_issues by blast
  from emb s obtain claims where c: "jwt_decode E t = Some claims"
    and keep: "\<forall>k. k \<notin> set registered_claims \<and> scalar (member [(''userId'', uid)] k) \<longrightarrow>
                 member claims k = member [(''userId'', uid)] k"
    and noexp: "member [(''userId'', uid)] ''exp'' = JUndefined \<and>
                member [] ''expiresIn'' = JUndefined \<longrightarrow> member claims ''exp'' = JUndefined"
    unfolding jwt_sign_embeds_def by blast
  have "''userId'' \<notin> set registered_claims" by (simp add: registered_claims_def)
  with keep have "scalar uid \<longrightarrow> member claims ''userId'' = uid" by (simp add: member_def)
  moreover from noexp have "member claims ''exp'' = JUndefined" by (simp add: member_def)
  ultimately show ?thesis using c by blast
qed

lemma authMiddleware_next:
  assumes "authMiddleware E req x = (Inr req1, x1)"
  shows "\<exists>h decoded. map_of (headers req) ''authorization'' = Some h \<and>
            startsWith h ''Bearer '' \<and> between_first_and_second_space h \<noteq> [] \<and>
            jwt_verify E (between_first_and_second_space h) (JWT_SECRET E) x = (Inr decoded, x1) \<and>
            req1 = req\<lparr>userId := member decoded ''userId''\<rparr>"
proof (cases "map_of (headers req) ''authorization''")
  case None
  with assms show ?thesis by (simp add: authMiddleware_def)
next
  case (Some h)
  show ?thesis
  proof (cases "startsWith h ''Bearer ''")
    case False
    with Some assms show ?thesis by (simp add: authMiddleware_def split: if_splits)
  next
    case True
    with Some assms show ?thesis
      by (auto simp add: authMiddleware_bearer split: prod.splits sum.splits if_splits)
  qed
qed


subsection \<open>The identifier a token carries is the one the middleware attaches\<close>

text \<open>
  Claim C2. Of a library whose signed tokens carry their payload and whose verification
  returns the claims of the token: when the registration or the login handler issues the
  token \<open>t\<close> for the user \<open>A\<close> (an identifier that is a number or a string, not an array
  or an object), and the middleware lets through a request whose header carries \<open>t\<close> as
  its token, the \<^verbatim>\<open>userId\<close> attached to that request is \<open>A\<close>, and so is no other
  identifier \<open>B\<close>.
\<close>

theorem token_binds_user:
  assumes "jwt_sign_embeds E" and "jwt_verify_sound E"
      and "issues (fst (post_auth_register E req w)) t A \<or>
           issues (fst (post_auth_login E req w)) t A"
      and "map_of (headers req2) ''authorization'' = Some h"
      and "between_first_and_second_space h = t"
      and "authMiddleware E req2 x = (Inr req3, x3)"
      and "scalar A"
  shows "userId req3 = A \<and> (\<forall>B. B \<noteq> A \<longrightarrow> userId req3 \<noteq> B)"
proof -
  from assms(1,3,7) obtain claims where c: "jwt_decode E t = Some claims"
    and a: "member claims ''userId'' = A"
    using issued_claims by blast
  from authMiddleware_next[OF assms(6)] obtain h' decoded where
    "map_of (headers req2) ''authorization'' = Some h'"
    and v: "jwt_verify E (between_first_and_second_space h') (JWT_SECRET E) x = (Inr decoded, x3)"
    and r: "req3 = req2\<lparr>userId := member decoded ''userId''\<rparr>"
    by auto
  with assms(4,5) have "jwt_verify E t (JWT_SECRET E) x = (Inr decoded, x3)" by simp
  with assms(2) have "jwt_decode E t = Some decoded" unfolding jwt_verify_sound_def by blast
  with c have "decoded = claims" by simp
  with a r show ?thesis by simp
qed

theorem token_binds_user_witness:
  "jwt_sign_embeds demo_env \<and> jwt_verify_sound demo_env
   \<and> issues (fst (post_auth_register demo_env
       (request_with [] [(''name'', JStr ''A''), (''email'', JStr ''a@x.com''),
                         (''password'', JStr ''p'')]) demo_world)) ''jwt.i'' (JNum 1)
   \<and> authMiddleware demo_env (request_with [(''authorization'', ''Bearer jwt.i'')] []) 0 =
       (Inr ((request_with [(''authorization'', ''Bearer jwt.i'')] [])\<lparr>userId := JNum 1\<rparr>), 1)
   \<and> userId ((request_with [(''authorization'', ''Bearer jwt.i'')] [])\<lparr>userId := JNum 1\<rparr>)
       = JNum 1
   \<and> userId ((request_with [(''authorization'', ''Bearer jwt.i'')] [])\<lparr>userId := JNum 1\<rparr>)
       \<noteq> JNum 2"
proof -
  from token_binds_user
         [OF demo_sign_embeds demo_verify_sound disjI1[OF demo_alice_issued]
             demo_bearer_header demo_bearer_accepted, simplified]
  have "userId ((request_with [(''authorization'', ''Bearer jwt.i'')] [])\<lparr>userId := JNum 1\<rparr>)
          = JNum 1"
    and "userId ((request_with [(''authorization'', ''Bearer jwt.i'')] [])\<lparr>userId := JNum 1\<rparr>)
          \<noteq> JNum 2"
    by simp_all
  with demo_sign_embeds demo_verify_sound demo_alice_issued demo_bearer_accepted
  show ?thesis by blast
qed

subsection \<open>Register, then log in\<close>



subsection \<open>No issued token is rejected as expired\<close>

text \<open>
  Claim C6. Every token issued by the registration or the login handler was signed for
  the payload \<^verbatim>\<open>{ userId }\<close>, which has no \<^verbatim>\<open>exp\<close> key, with no \<^verbatim>\<open>expiresIn\<close> option.
  Of a library that puts an expiry claim into a token only when asked to, and that raises
  the expired-token error only for a token with an expiry claim: every token issued by
  the registration or the login handler carries no expiry claim, its verification never
  fails with the expired-token error, and the middleware never answers a request that
  carries it with the 401 of its expired-token branch.
\<close>

theorem issued_token_never_expired:
  assumes "jwt_sign_embeds E" and "jwt_expired_only_with_exp E"
      and "issues (fst (post_auth_register E req w)) t uid \<or>
           issues (fst (post_auth_login E req w)) t uid"
  shows "(\<exists>x x1. jwt_sign E [(''userId'', uid)] (JWT_SECRET E) [] x = (Inr t, x1))
   \<and> member [(''userId'', uid)] ''exp'' = JUndefined
   \<and> member [] ''expiresIn'' = JUndefined
   \<and> (\<exists>claims. jwt_decode E t = Some claims \<and> member claims ''exp'' = JUndefined)
   \<and> (\<forall>x error x1. jwt_verify E t (JWT_SECRET E) x = (Inl error, x1) \<longrightarrow>
          err_name error \<noteq> ''TokenExpiredError'')
   \<and> (\<forall>req2 h x. map_of (headers req2) ''authorization'' = Some h \<and>
          between_first_and_second_space h = t \<longrightarrow>
          fst (authMiddleware E req2 x) \<noteq> Inl (respond 401 (message msg_token_expired)))"
proof -
  from assms(1,3) obtain claims where c: "jwt_decode E t = Some claims"
    and e: "member claims ''exp'' = JUndefined"
    using issued_claims by blast
  have never: "err_name error \<noteq> ''TokenExpiredError''"
    if "jwt_verify E t secret x = (Inl error, x1)" for secret x error x1
  proof
    assume "err_name error = ''TokenExpiredError''"
    with that assms(2) obtain claims' where "jwt_decode E t = Some claims'"
      and "member claims' ''exp'' \<noteq> JUndefined"
      unfolding jwt_expired_only_with_exp_def by blast
    with c e show False by simp
  qed
  have gate: "fst (authMiddleware E req2 x) \<noteq> Inl (respond 401 (message msg_token_expired))"
    if h: "map_of (headers req2) ''authorization'' = Some h"
      and b: "between_first_and_second_space h = t" for req2 h x
  proof (cases "startsWith h ''Bearer ''")
    case False
    with h show ?thesis
      by (auto simp add: authMiddleware_def respond_def split: if_splits)
  next
    case True
    show ?thesis
    proof (cases "jwt_verify E t (JWT_SECRET E) x")
      case (Pair res x1)
      show ?thesis
      proof (cases res)
        case (Inl error)
        with Pair never have "err_name error \<noteq> ''TokenExpiredError''" by blast
        with h b True Pair Inl show ?thesis
          by (simp add: authMiddleware_bearer respond_def message_def)
      next
        case (Inr decoded)
        with h b True Pair show ?thesis
          by (simp add: authMiddleware_bearer respond_def)
      qed
    qed
  qed
  from assms(3) have signed:
    "\<exists>x x1. jwt_sign E [(''userId'', uid)] (JWT_SECRET E) [] x = (Inr t, x1)"
    using register_issues login_issues by blast
  have bare: "member [(''userId'', uid)] ''exp'' = JUndefined"
    "member [] ''expiresIn'' = JUndefined"
    by (simp_all add: member_def)
  from signed bare c e never gate show ?thesis by blast
qed

theorem issued_token_never_expired_witness:
  "jwt_sign_embeds demo_env \<and> jwt_expired_only_with_exp demo_env
   \<and> issues (fst (post_auth_register demo_env
       (request_with [] [(''name'', JStr ''A''), (''email'', JStr ''a@x.com''),
                         (''password'', JStr ''p'')]) demo_world)) ''jwt.i'' (JNum 1)
   \<and> (\<exists>claims. jwt_decode demo_env ''jwt.i'' = Some claims \<and>
                 member claims ''exp'' = JUndefined)
   \<and> fst (authMiddleware demo_env (request_with [(''authorization'', ''Bearer jwt.i'')] []) 0)
       \<noteq> Inl (respond 401 (message msg_token_expired))"
proof -
  note fact = issued_token_never_expired
         [OF demo_sign_embeds demo_expired_only_with_exp disjI1[OF demo_alice_issued]]
  from fact have a: "\<exists>claims. jwt_decode demo_env ''jwt.i'' = Some claims \<and>
                 member claims ''exp'' = JUndefined"
    by (elim conjE) assumption
  from fact have "\<forall>req2 h x. map_of (headers req2) ''authorization'' = Some h \<and>
          between_first_and_second_space h = ''jwt.i'' \<longrightarrow>
          fst (authMiddleware demo_env req2 x) \<noteq> Inl (respond 401 (message msg_token_expired))"
    by (elim conjE) assumption
  with demo_bearer_header
  have b: "fst (authMiddleware demo_env (request_with [(''authorization'', ''Bearer jwt.i'')] []) 0)
       \<noteq> Inl (respond 401 (message msg_token_expired))"
    by blast
  from a b demo_sign_embeds demo_expired_only_with_exp demo_alice_issued
  show ?thesis by blast
qed

end
